theory Spec2Isabelle
  imports Main "HOL-Library.Word"
begin

unbundle bit_operations_syntax

section \<open>Console commands for vehicles, towns and industries\<close>

text \<open>
  A shallow embedding of the filter-and-command part of \<^verbatim>\<open>src/console_cmds.cpp\<close>:
  the symbol tables with their alias convention, the resolver \<^verbatim>\<open>GetStringInfo\<close>,
  the filter tokenizer and chain builder \<^verbatim>\<open>CheckMatch\<close>, the three matchers,
  the three command handlers and the three dispatchers.

  C strings are \<^typ>\<open>string\<close>s; the end of the list plays the role of the
  terminating NUL. Assertions (\<^verbatim>\<open>assert\<close>, \<^verbatim>\<open>NOT_REACHED\<close>) and reads
  outside an array are values of the type \<open>error\<close>, returned on the left of a sum.
\<close>

subsection \<open>Errors\<close>

datatype error =
    AssertionFailed   \<comment> \<open>an \<^verbatim>\<open>assert(...)\<close> whose condition is false\<close>
  | NotReached        \<comment> \<open>\<^verbatim>\<open>NOT_REACHED()\<close>\<close>
  | OutOfBounds       \<comment> \<open>a read or write past the end of an array\<close>
  | DivisionByZero    \<comment> \<open>integer \<^verbatim>\<open>%\<close> with a zero divisor\<close>

definition bind_err :: "error + 'a \<Rightarrow> ('a \<Rightarrow> error + 'b) \<Rightarrow> error + 'b" where
  "bind_err m f = (case m of Inl e \<Rightarrow> Inl e | Inr x \<Rightarrow> f x)"

subsection \<open>Case-insensitive string comparison\<close>

text \<open>\<^verbatim>\<open>tolower\<close> of the C locale: only the letters A to Z change.\<close>

definition tolower :: "char \<Rightarrow> char" where
  "tolower c =
     (let n = (of_char c :: nat) in if 65 \<le> n \<and> n \<le> 90 then char_of (n + 32) else c)"

text \<open>
  \<^verbatim>\<open>#define stricmp strcasecmp\<close>. POSIX fixes only the sign of the result, and every
  caller looks at the sign only; the model returns \<open>-1\<close>, \<open>0\<close> or \<open>1\<close>, comparing
  the lowered characters as unsigned bytes.
\<close>

fun strcasecmp :: "string \<Rightarrow> string \<Rightarrow> int" where
  "strcasecmp [] [] = 0"
| "strcasecmp [] (b # bs) = -1"
| "strcasecmp (a # as) [] = 1"
| "strcasecmp (a # as) (b # bs) =
     (if tolower a = tolower b then strcasecmp as bs
      else if (of_char (tolower a) :: nat) < of_char (tolower b) then -1 else 1)"

definition stricmp :: "string \<Rightarrow> string \<Rightarrow> int" where
  "stricmp s1 s2 = strcasecmp s1 s2"

text \<open>
  \<^verbatim>\<open>str_isprefix\<close>: the \<^verbatim>\<open>while\<close> loop advances \<open>len\<close> over the common
  case-insensitive prefix of the two strings.
\<close>

fun str_isprefix_len :: "string \<Rightarrow> string \<Rightarrow> nat" where
  "str_isprefix_len (a # as) (b # bs) =
     (if tolower a = tolower b then Suc (str_isprefix_len as bs) else 0)"
| "str_isprefix_len _ _ = 0"

definition str_isprefix :: "string \<Rightarrow> string \<Rightarrow> bool" where
  "str_isprefix s1 s2 =
     (let len = str_isprefix_len s1 s2 in
      if drop len s2 = [] \<and> drop len s1 \<noteq> [] then False
      else if len > 0 \<and> drop len s1 = [] then True
      else False)"

subsection \<open>Symbol tables\<close>

text \<open>Bitmask for \<^verbatim>\<open>StringInfo<T>.req\<close>.\<close>

definition FOR_TRAIN :: int where "FOR_TRAIN = 0x01"
definition FOR_ROAD :: int where "FOR_ROAD = 0x02"
definition FOR_SHIP :: int where "FOR_SHIP = 0x04"
definition FOR_AIRCRAFT :: int where "FOR_AIRCRAFT = 0x08"
definition NOT_CRASHED :: int where "NOT_CRASHED = 0x10"
definition IN_DEPOT :: int where "IN_DEPOT = 0x20"
definition STOPPED :: int where "STOPPED = 0x40"
definition IS_ALIAS :: int where "IS_ALIAS = 0x80"
definition FOR_VEHICLE :: int where
  "FOR_VEHICLE = FOR_TRAIN OR FOR_ROAD OR FOR_SHIP OR FOR_AIRCRAFT"
definition FOR_TOWN :: int where "FOR_TOWN = 0x100"
definition FOR_INDUSTRY :: int where "FOR_INDUSTRY = 0x200"
definition USE_PRINTF :: int where "USE_PRINTF = 0x400"
definition IN_EDITOR :: int where "IN_EDITOR = 0x800"

definition LIST_ALIAS :: int where "LIST_ALIAS = -1"

text \<open>
  \<^verbatim>\<open>template<typename T> struct StringInfo\<close>. \<open>T\<close> is one of the four enums below;
  where the code compares an enumerator with an integer (\<^verbatim>\<open>id == LIST_ALIAS\<close>,
  \<^verbatim>\<open>if (cmd.id)\<close>) the model applies the enum's value function.
\<close>

record 'a StringInfo =
  id_s :: 'a
  name_s :: string
  params_s :: int
  req_s :: int
  help_s :: string

datatype VehicleCommand =
    VEHICLE_COMMAND_ALIAS
  | VEHICLE_INVALID_COMMAND
  | VEHICLE_CENTER
  | VEHICLE_CLONE
  | VEHICLE_CLONE_SHARED
  | VEHICLE_DEPOT
  | TRAIN_IGNORE
  | TRAIN_WAGON_INFO
  | TRAIN_SELL_WAGON
  | VEHICLE_INFO
  | VEHICLE_LEAVE_STATION
  | VEHICLE_OPEN
  | VEHICLE_SELL
  | VEHICLE_SERVICE
  | VEHICLE_SKIP_ORDER
  | VEHICLE_START
  | VEHICLE_STOP
  | VEHICLE_TURN
  | VEHICLE_INTERVAL
  | VEHICLE_UNDEPOT
  | VEHICLE_UNSERVICE
  | VEHICLE_COUNT

fun VehicleCommand_val :: "VehicleCommand \<Rightarrow> int" where
  "VehicleCommand_val VEHICLE_COMMAND_ALIAS = LIST_ALIAS"
| "VehicleCommand_val VEHICLE_INVALID_COMMAND = 0"
| "VehicleCommand_val VEHICLE_CENTER = 1"
| "VehicleCommand_val VEHICLE_CLONE = 2"
| "VehicleCommand_val VEHICLE_CLONE_SHARED = 3"
| "VehicleCommand_val VEHICLE_DEPOT = 4"
| "VehicleCommand_val TRAIN_IGNORE = 5"
| "VehicleCommand_val TRAIN_WAGON_INFO = 6"
| "VehicleCommand_val TRAIN_SELL_WAGON = 7"
| "VehicleCommand_val VEHICLE_INFO = 8"
| "VehicleCommand_val VEHICLE_LEAVE_STATION = 9"
| "VehicleCommand_val VEHICLE_OPEN = 10"
| "VehicleCommand_val VEHICLE_SELL = 11"
| "VehicleCommand_val VEHICLE_SERVICE = 12"
| "VehicleCommand_val VEHICLE_SKIP_ORDER = 13"
| "VehicleCommand_val VEHICLE_START = 14"
| "VehicleCommand_val VEHICLE_STOP = 15"
| "VehicleCommand_val VEHICLE_TURN = 16"
| "VehicleCommand_val VEHICLE_INTERVAL = 17"
| "VehicleCommand_val VEHICLE_UNDEPOT = 18"
| "VehicleCommand_val VEHICLE_UNSERVICE = 19"
| "VehicleCommand_val VEHICLE_COUNT = 20"

datatype TownCommand =
    TOWN_COMMAND_ALIAS
  | TOWN_INVALID_COMMAND
  | TOWN_CENTER
  | TOWN_INFO
  | TOWN_PRINT
  | TOWN_OPEN
  | TOWN_OPEN_AUTH
  | TOWN_ACTION_AD_SMALL
  | TOWN_ACTION_AD_MEDIUM
  | TOWN_ACTION_AD_LARGE
  | TOWN_ACTION_ROAD
  | TOWN_ACTION_STATUE
  | TOWN_ACTION_FUND
  | TOWN_ACTION_EXCLUSIVE
  | TOWN_ACTION_BRIBE
  | TOWN_EXPAND
  | TOWN_DELETE
  | TOWN_COUNT

fun TownCommand_val :: "TownCommand \<Rightarrow> int" where
  "TownCommand_val TOWN_COMMAND_ALIAS = LIST_ALIAS"
| "TownCommand_val TOWN_INVALID_COMMAND = 0"
| "TownCommand_val TOWN_CENTER = 1"
| "TownCommand_val TOWN_INFO = 2"
| "TownCommand_val TOWN_PRINT = 3"
| "TownCommand_val TOWN_OPEN = 4"
| "TownCommand_val TOWN_OPEN_AUTH = 5"
| "TownCommand_val TOWN_ACTION_AD_SMALL = 6"
| "TownCommand_val TOWN_ACTION_AD_MEDIUM = 7"
| "TownCommand_val TOWN_ACTION_AD_LARGE = 8"
| "TownCommand_val TOWN_ACTION_ROAD = 9"
| "TownCommand_val TOWN_ACTION_STATUE = 10"
| "TownCommand_val TOWN_ACTION_FUND = 11"
| "TownCommand_val TOWN_ACTION_EXCLUSIVE = 12"
| "TownCommand_val TOWN_ACTION_BRIBE = 13"
| "TownCommand_val TOWN_EXPAND = 14"
| "TownCommand_val TOWN_DELETE = 15"
| "TownCommand_val TOWN_COUNT = 16"

definition TOWN_ACTION_0 :: TownCommand where "TOWN_ACTION_0 = TOWN_ACTION_AD_SMALL"

datatype IndustryCommand =
    INDUSTRY_COMMAND_ALIAS
  | INDUSTRY_INVALID_COMMAND
  | INDUSTRY_CENTER
  | INDUSTRY_INFO
  | INDUSTRY_OPEN
  | INDUSTRY_COUNT
  | INDUSTRY_DELETE

fun IndustryCommand_val :: "IndustryCommand \<Rightarrow> int" where
  "IndustryCommand_val INDUSTRY_COMMAND_ALIAS = LIST_ALIAS"
| "IndustryCommand_val INDUSTRY_INVALID_COMMAND = 0"
| "IndustryCommand_val INDUSTRY_CENTER = 1"
| "IndustryCommand_val INDUSTRY_INFO = 2"
| "IndustryCommand_val INDUSTRY_OPEN = 3"
| "IndustryCommand_val INDUSTRY_COUNT = 4"
| "IndustryCommand_val INDUSTRY_DELETE = 5"

datatype MatchType =
    MATCH_ALIAS
  | MATCH_INVALID
  | MATCH_GENERIC
  | MATCH_ALL
  | MATCH_GROUP
  | MATCH_CRASHED
  | MATCH_LENGTH
  | MATCH_WAGONS
  | MATCH_ORDERS
  | MATCH_SPEED
  | MATCH_AGE
  | MATCH_BREAKDOWNS
  | MATCH_MAXSPEED
  | MATCH_PROFIT
  | MATCH_PROFIT_THIS
  | MATCH_PROFIT_LAST
  | MATCH_SERVICE
  | MATCH_IN_DEPOT
  | MATCH_BROKEN
  | MATCH_TOWN_POPULATION
  | MATCH_TOWN_HOUSES
  | MATCH_TOWN_RATING
  | MATCH_TOWN_STATUE
  | MATCH_TOWN_NO_STATUE
  | MATCH_TOWN_FUNDING
  | MATCH_TOWN_ROADWORKS
  | MATCH_TOWN_EXCLUSIVE_COMPANY
  | MATCH_TOWN_EXCLUSIVE_MONTHS
  | MATCH_TOWN_EXCLUSIVE_MY_MONTHS
  | MATCH_TOWN_EXCLUSIVE_OTHERS_MONTHS
  | MATCH_TOWN_UNWANTED_MONTHS
  | MATCH_TOWN_NOISE
  | MATCH_TOWN_NOISE_REMAIN
  | MATCH_TOWN_NOISE_MAX
  | MATCH_INDUSTRY_PRODUCTION
  | MATCH_INDUSTRY_PRODUCTION_THIS
  | MATCH_INDUSTRY_PERCENT
  | MATCH_INDUSTRY_PERCENT_THIS

fun MatchType_val :: "MatchType \<Rightarrow> int" where
  "MatchType_val MATCH_ALIAS = LIST_ALIAS"
| "MatchType_val MATCH_INVALID = 0"
| "MatchType_val MATCH_GENERIC = 1"
| "MatchType_val MATCH_ALL = 2"
| "MatchType_val MATCH_GROUP = 3"
| "MatchType_val MATCH_CRASHED = 4"
| "MatchType_val MATCH_LENGTH = 5"
| "MatchType_val MATCH_WAGONS = 6"
| "MatchType_val MATCH_ORDERS = 7"
| "MatchType_val MATCH_SPEED = 8"
| "MatchType_val MATCH_AGE = 9"
| "MatchType_val MATCH_BREAKDOWNS = 10"
| "MatchType_val MATCH_MAXSPEED = 11"
| "MatchType_val MATCH_PROFIT = 12"
| "MatchType_val MATCH_PROFIT_THIS = 13"
| "MatchType_val MATCH_PROFIT_LAST = 14"
| "MatchType_val MATCH_SERVICE = 15"
| "MatchType_val MATCH_IN_DEPOT = 16"
| "MatchType_val MATCH_BROKEN = 17"
| "MatchType_val MATCH_TOWN_POPULATION = 18"
| "MatchType_val MATCH_TOWN_HOUSES = 19"
| "MatchType_val MATCH_TOWN_RATING = 20"
| "MatchType_val MATCH_TOWN_STATUE = 21"
| "MatchType_val MATCH_TOWN_NO_STATUE = 22"
| "MatchType_val MATCH_TOWN_FUNDING = 23"
| "MatchType_val MATCH_TOWN_ROADWORKS = 24"
| "MatchType_val MATCH_TOWN_EXCLUSIVE_COMPANY = 25"
| "MatchType_val MATCH_TOWN_EXCLUSIVE_MONTHS = 26"
| "MatchType_val MATCH_TOWN_EXCLUSIVE_MY_MONTHS = 27"
| "MatchType_val MATCH_TOWN_EXCLUSIVE_OTHERS_MONTHS = 28"
| "MatchType_val MATCH_TOWN_UNWANTED_MONTHS = 29"
| "MatchType_val MATCH_TOWN_NOISE = 30"
| "MatchType_val MATCH_TOWN_NOISE_REMAIN = 31"
| "MatchType_val MATCH_TOWN_NOISE_MAX = 32"
| "MatchType_val MATCH_INDUSTRY_PRODUCTION = 33"
| "MatchType_val MATCH_INDUSTRY_PRODUCTION_THIS = 34"
| "MatchType_val MATCH_INDUSTRY_PERCENT = 35"
| "MatchType_val MATCH_INDUSTRY_PERCENT_THIS = 36"

datatype MatchSubtype =
    MATCH_NONE
  | MATCH_NOT_EQUAL
  | MATCH_EQUAL
  | MATCH_LESS
  | MATCH_LESS_OR_EQUAL
  | MATCH_GREATER_OR_EQUAL
  | MATCH_GREATER

subsection \<open>The tables\<close>

text \<open>
  List of all command names for vehicle commands. All aliases must be listed right
  before their commands.
\<close>

definition veh_commands :: "VehicleCommand StringInfo list" where
  "veh_commands = [
    \<lparr>id_s = VEHICLE_COMMAND_ALIAS, name_s = ''centre'', params_s = 0, req_s = 0, help_s = ''''\<rparr>,
    \<lparr>id_s = VEHICLE_CENTER, name_s = ''center'', params_s = 0, req_s = FOR_VEHICLE,
      help_s = ''Center main view on vehicle's location''\<rparr>,
    \<lparr>id_s = VEHICLE_CLONE, name_s = ''clone'', params_s = 0, req_s = FOR_VEHICLE OR IN_DEPOT,
      help_s = ''Clone vehicle, if it is in depot. Parameter specifies number of created clones (default 1)''\<rparr>,
    \<lparr>id_s = VEHICLE_CLONE_SHARED, name_s = ''clone_shared'', params_s = 0,
      req_s = FOR_VEHICLE OR IN_DEPOT, help_s = ''Same as clone, but with shared orders''\<rparr>,
    \<lparr>id_s = VEHICLE_COUNT, name_s = ''count'', params_s = 0, req_s = FOR_VEHICLE,
      help_s = ''Count vehicles matching given criteria''\<rparr>,
    \<lparr>id_s = VEHICLE_DEPOT, name_s = ''depot'', params_s = 0, req_s = FOR_VEHICLE OR NOT_CRASHED,
      help_s = ''Send to depot''\<rparr>,
    \<lparr>id_s = TRAIN_IGNORE, name_s = ''ignore'', params_s = 0, req_s = FOR_TRAIN OR NOT_CRASHED,
      help_s = ''Ignore signals''\<rparr>,
    \<lparr>id_s = VEHICLE_INFO, name_s = ''info'', params_s = 0, req_s = FOR_VEHICLE,
      help_s = ''Show vehicle info in console''\<rparr>,
    \<lparr>id_s = VEHICLE_INTERVAL, name_s = ''interval'', params_s = 1,
      req_s = FOR_VEHICLE OR NOT_CRASHED,
      help_s = ''Set servicing interval. Parameter specifies new interval in days/percent''\<rparr>,
    \<lparr>id_s = VEHICLE_LEAVE_STATION, name_s = ''leave'', params_s = 0,
      req_s = FOR_VEHICLE OR NOT_CRASHED, help_s = ''Leave station by skipping to next order''\<rparr>,
    \<lparr>id_s = VEHICLE_COMMAND_ALIAS, name_s = ''show'', params_s = 0, req_s = 0, help_s = ''''\<rparr>,
    \<lparr>id_s = VEHICLE_OPEN, name_s = ''open'', params_s = 0, req_s = FOR_VEHICLE,
      help_s = ''Open vehicle window''\<rparr>,
    \<lparr>id_s = VEHICLE_SELL, name_s = ''sell'', params_s = 0,
      req_s = FOR_VEHICLE OR STOPPED OR IN_DEPOT,
      help_s = ''Sell vehicle, if it is stopped in depot''\<rparr>,
    \<lparr>id_s = VEHICLE_SERVICE, name_s = ''service'', params_s = 0,
      req_s = FOR_VEHICLE OR NOT_CRASHED, help_s = ''Send for servicing''\<rparr>,
    \<lparr>id_s = VEHICLE_SKIP_ORDER, name_s = ''skip'', params_s = 0,
      req_s = FOR_VEHICLE OR NOT_CRASHED,
      help_s = ''Skip to next order. Optional parameter specifies how many orders to skip ('r' = skip to random order, default is 1)''\<rparr>,
    \<lparr>id_s = VEHICLE_COMMAND_ALIAS, name_s = ''go'', params_s = 0, req_s = 0, help_s = ''''\<rparr>,
    \<lparr>id_s = VEHICLE_START, name_s = ''start'', params_s = 0, req_s = FOR_VEHICLE OR NOT_CRASHED,
      help_s = ''Start vehicle''\<rparr>,
    \<lparr>id_s = VEHICLE_STOP, name_s = ''stop'', params_s = 0, req_s = FOR_VEHICLE OR NOT_CRASHED,
      help_s = ''Stop vehicle''\<rparr>,
    \<lparr>id_s = VEHICLE_COMMAND_ALIAS, name_s = ''reverse'', params_s = 0, req_s = 0, help_s = ''''\<rparr>,
    \<lparr>id_s = VEHICLE_TURN, name_s = ''turn'', params_s = 0,
      req_s = FOR_TRAIN OR FOR_ROAD OR NOT_CRASHED, help_s = ''Turn around''\<rparr>,
    \<lparr>id_s = VEHICLE_UNSERVICE, name_s = ''unservice'', params_s = 0,
      req_s = FOR_VEHICLE OR NOT_CRASHED, help_s = ''Cancel order to be sent for servicing''\<rparr>,
    \<lparr>id_s = VEHICLE_UNDEPOT, name_s = ''undepot'', params_s = 0,
      req_s = FOR_VEHICLE OR NOT_CRASHED, help_s = ''Cancel order to be sent to depot''\<rparr>,
    \<lparr>id_s = TRAIN_WAGON_INFO, name_s = ''winfo'', params_s = 0, req_s = FOR_TRAIN,
      help_s = ''Show info about train wagons in console''\<rparr>,
    \<lparr>id_s = TRAIN_SELL_WAGON, name_s = ''wsell'', params_s = 1,
      req_s = FOR_TRAIN OR STOPPED OR IN_DEPOT,
      help_s = ''Sell train wagons(s). If one parameter is given, single wagon will be sold. If two parameters are given, they will specify range of wagons to sell.''\<rparr>
  ]"

text \<open>List of all command names for town commands.\<close>

definition town_commands :: "TownCommand StringInfo list" where
  "town_commands = [
    \<lparr>id_s = TOWN_COMMAND_ALIAS, name_s = ''centre'', params_s = 0, req_s = 0, help_s = ''''\<rparr>,
    \<lparr>id_s = TOWN_CENTER, name_s = ''center'', params_s = 0, req_s = FOR_TOWN,
      help_s = ''Center main view on town location''\<rparr>,
    \<lparr>id_s = TOWN_COUNT, name_s = ''count'', params_s = 0, req_s = FOR_TOWN,
      help_s = ''Count towns matching given criteria''\<rparr>,
    \<lparr>id_s = TOWN_INFO, name_s = ''info'', params_s = 0, req_s = FOR_TOWN,
      help_s = ''Show town info in console''\<rparr>,
    \<lparr>id_s = TOWN_PRINT, name_s = ''print'', params_s = 0, req_s = FOR_TOWN,
      help_s = ''Print town name in console''\<rparr>,
    \<lparr>id_s = TOWN_COMMAND_ALIAS, name_s = ''show'', params_s = 0, req_s = 0, help_s = ''''\<rparr>,
    \<lparr>id_s = TOWN_OPEN, name_s = ''open'', params_s = 0, req_s = FOR_TOWN,
      help_s = ''Open town window''\<rparr>,
    \<lparr>id_s = TOWN_OPEN_AUTH, name_s = ''auth'', params_s = 0, req_s = FOR_TOWN,
      help_s = ''Open town authority window''\<rparr>,
    \<lparr>id_s = TOWN_COMMAND_ALIAS, name_s = ''small_ad'', params_s = 0, req_s = 0, help_s = ''''\<rparr>,
    \<lparr>id_s = TOWN_ACTION_AD_SMALL, name_s = ''ad_small'', params_s = 0, req_s = FOR_TOWN,
      help_s = ''Launch small advertising campaign in the town''\<rparr>,
    \<lparr>id_s = TOWN_COMMAND_ALIAS, name_s = ''medium_ad'', params_s = 0, req_s = 0, help_s = ''''\<rparr>,
    \<lparr>id_s = TOWN_ACTION_AD_MEDIUM, name_s = ''ad_medium'', params_s = 0, req_s = FOR_TOWN,
      help_s = ''Launch medium advertising campaign in the town''\<rparr>,
    \<lparr>id_s = TOWN_COMMAND_ALIAS, name_s = ''large_ad'', params_s = 0, req_s = 0, help_s = ''''\<rparr>,
    \<lparr>id_s = TOWN_ACTION_AD_LARGE, name_s = ''ad_large'', params_s = 0, req_s = FOR_TOWN,
      help_s = ''Launch large advertising campaign in the town''\<rparr>,
    \<lparr>id_s = TOWN_COMMAND_ALIAS, name_s = ''reconstruction'', params_s = 0, req_s = 0,
      help_s = ''''\<rparr>,
    \<lparr>id_s = TOWN_ACTION_ROAD, name_s = ''road'', params_s = 0, req_s = FOR_TOWN,
      help_s = ''Fund road reconstruction in town''\<rparr>,
    \<lparr>id_s = TOWN_ACTION_STATUE, name_s = ''statue'', params_s = 0, req_s = FOR_TOWN,
      help_s = ''Build statue in town''\<rparr>,
    \<lparr>id_s = TOWN_COMMAND_ALIAS, name_s = ''building'', params_s = 0, req_s = 0, help_s = ''''\<rparr>,
    \<lparr>id_s = TOWN_ACTION_FUND, name_s = ''fund'', params_s = 0, req_s = FOR_TOWN,
      help_s = ''Fund construction of new buildings''\<rparr>,
    \<lparr>id_s = TOWN_ACTION_EXCLUSIVE, name_s = ''exclusive'', params_s = 0, req_s = FOR_TOWN,
      help_s = ''Buy exclusive rights in town''\<rparr>,
    \<lparr>id_s = TOWN_ACTION_BRIBE, name_s = ''bribe'', params_s = 0, req_s = FOR_TOWN,
      help_s = ''Bribe town authority''\<rparr>,
    \<lparr>id_s = TOWN_EXPAND, name_s = ''expand'', params_s = 0, req_s = FOR_TOWN OR IN_EDITOR,
      help_s = ''Expand town (scenario editor only) Parameter specifies number of repetitions (default 1)''\<rparr>,
    \<lparr>id_s = TOWN_DELETE, name_s = ''delete'', params_s = 0, req_s = FOR_TOWN OR IN_EDITOR,
      help_s = ''Delete the town (scenario editor only)''\<rparr>
  ]"

text \<open>List of all command names for industry commands.\<close>

definition ind_commands :: "IndustryCommand StringInfo list" where
  "ind_commands = [
    \<lparr>id_s = INDUSTRY_COMMAND_ALIAS, name_s = ''centre'', params_s = 0, req_s = 0, help_s = ''''\<rparr>,
    \<lparr>id_s = INDUSTRY_CENTER, name_s = ''center'', params_s = 0, req_s = FOR_INDUSTRY,
      help_s = ''Center main view on industry location''\<rparr>,
    \<lparr>id_s = INDUSTRY_COUNT, name_s = ''count'', params_s = 0, req_s = FOR_INDUSTRY,
      help_s = ''Count industries matching given criteria''\<rparr>,
    \<lparr>id_s = INDUSTRY_INFO, name_s = ''info'', params_s = 0, req_s = FOR_INDUSTRY,
      help_s = ''Show industry info in console''\<rparr>,
    \<lparr>id_s = INDUSTRY_COMMAND_ALIAS, name_s = ''show'', params_s = 0, req_s = 0, help_s = ''''\<rparr>,
    \<lparr>id_s = INDUSTRY_OPEN, name_s = ''open'', params_s = 0, req_s = FOR_INDUSTRY,
      help_s = ''Open industry window''\<rparr>,
    \<lparr>id_s = INDUSTRY_DELETE, name_s = ''delete'', params_s = 0, req_s = FOR_INDUSTRY,
      help_s = ''Delete the industry''\<rparr>
  ]"

text \<open>List of all non-numeric match names.\<close>

definition match_nn_info :: "MatchType StringInfo list" where
  "match_nn_info = [
    \<lparr>id_s = MATCH_ALL, name_s = ''all'', params_s = 0,
      req_s = FOR_VEHICLE OR FOR_INDUSTRY OR FOR_TOWN OR USE_PRINTF, help_s = '' for all %ss''\<rparr>,
    \<lparr>id_s = MATCH_ALL, name_s = ''*'', params_s = 0,
      req_s = FOR_VEHICLE OR FOR_INDUSTRY OR FOR_TOWN OR USE_PRINTF, help_s = '' for all %ss''\<rparr>,
    \<lparr>id_s = MATCH_BROKEN, name_s = ''broken'', params_s = 0, req_s = FOR_VEHICLE OR USE_PRINTF,
      help_s = '' for all broken down %ss''\<rparr>,
    \<lparr>id_s = MATCH_CRASHED, name_s = ''crashed'', params_s = 0, req_s = FOR_VEHICLE OR USE_PRINTF,
      help_s = '' for all crashed %ss''\<rparr>,
    \<lparr>id_s = MATCH_IN_DEPOT, name_s = ''depot'', params_s = 0, req_s = FOR_VEHICLE OR USE_PRINTF,
      help_s = '' for all %ss in depot''\<rparr>,
    \<lparr>id_s = MATCH_TOWN_STATUE, name_s = ''statue'', params_s = 0, req_s = FOR_TOWN,
      help_s = '' for all towns where you have a statue''\<rparr>,
    \<lparr>id_s = MATCH_TOWN_NO_STATUE, name_s = ''no_statue'', params_s = 0, req_s = FOR_TOWN,
      help_s = '' for all towns where you don't have a statue''\<rparr>
  ]"

text \<open>List of all numeric match names.\<close>

definition match_info :: "MatchType StringInfo list" where
  "match_info = [
    \<lparr>id_s = MATCH_AGE, name_s = ''age'', params_s = 0, req_s = FOR_VEHICLE,
      help_s = ''=[value] for matching age (in years)''\<rparr>,
    \<lparr>id_s = MATCH_BREAKDOWNS, name_s = ''breakdowns'', params_s = 0, req_s = FOR_VEHICLE,
      help_s = ''=[value] for matching breakdowns since last service''\<rparr>,
    \<lparr>id_s = MATCH_LENGTH, name_s = ''len'', params_s = 0, req_s = FOR_TRAIN,
      help_s = ''=[value] for matching train length (in tiles)''\<rparr>,
    \<lparr>id_s = MATCH_MAXSPEED, name_s = ''maxspeed'', params_s = 0, req_s = FOR_VEHICLE,
      help_s = ''=[value] for matching maximum speed (in km/h)''\<rparr>,
    \<lparr>id_s = MATCH_ORDERS, name_s = ''orders'', params_s = 0, req_s = FOR_VEHICLE,
      help_s = ''=[value] for matching number of orders''\<rparr>,
    \<lparr>id_s = MATCH_GROUP, name_s = ''group'', params_s = 0, req_s = FOR_VEHICLE,
      help_s = ''=[name] for matching group by name''\<rparr>,
    \<lparr>id_s = MATCH_PROFIT, name_s = ''profit'', params_s = 0, req_s = FOR_VEHICLE,
      help_s = ''=[value] for matching sum of this and last year's profit (in pounds)''\<rparr>,
    \<lparr>id_s = MATCH_PROFIT_THIS, name_s = ''profit_this'', params_s = 0, req_s = FOR_VEHICLE,
      help_s = ''=[value] for matching this year's profit (in pounds)''\<rparr>,
    \<lparr>id_s = MATCH_PROFIT_LAST, name_s = ''profit_last'', params_s = 0, req_s = FOR_VEHICLE,
      help_s = ''=[value] for matching last year's profit (in pounds)''\<rparr>,
    \<lparr>id_s = MATCH_SERVICE, name_s = ''service'', params_s = 0, req_s = FOR_VEHICLE,
      help_s = ''=[value] for matching service interval (in days/percent)''\<rparr>,
    \<lparr>id_s = MATCH_SPEED, name_s = ''speed'', params_s = 0, req_s = FOR_VEHICLE,
      help_s = ''=[value] for matching current speed (in km/h)''\<rparr>,
    \<lparr>id_s = MATCH_WAGONS, name_s = ''wagons'', params_s = 0, req_s = FOR_TRAIN,
      help_s = ''=[value] for matching number of train wagons''\<rparr>,
    \<lparr>id_s = MATCH_TOWN_POPULATION, name_s = ''population'', params_s = 0, req_s = FOR_TOWN,
      help_s = ''=[value] for matching town population''\<rparr>,
    \<lparr>id_s = MATCH_TOWN_HOUSES, name_s = ''houses'', params_s = 0, req_s = FOR_TOWN,
      help_s = ''=[value] for matching number of town houses''\<rparr>,
    \<lparr>id_s = MATCH_TOWN_RATING, name_s = ''rating'', params_s = 0, req_s = FOR_TOWN,
      help_s = ''=[value] for matching your rating in town''\<rparr>,
    \<lparr>id_s = MATCH_TOWN_NOISE, name_s = ''currnoise'', params_s = 0, req_s = FOR_TOWN,
      help_s = ''=[value] for matching currently used noise level''\<rparr>,
    \<lparr>id_s = MATCH_TOWN_NOISE_REMAIN, name_s = ''noise'', params_s = 0, req_s = FOR_TOWN,
      help_s = ''=[value] for matching remaining (usable by you) noise level''\<rparr>,
    \<lparr>id_s = MATCH_TOWN_NOISE_MAX, name_s = ''maxnoise'', params_s = 0, req_s = FOR_TOWN,
      help_s = ''=[value] for matching maximal noise level''\<rparr>,
    \<lparr>id_s = MATCH_TOWN_FUNDING, name_s = ''fund'', params_s = 0, req_s = FOR_TOWN,
      help_s = ''=[value] for matching months remaining in building funding''\<rparr>,
    \<lparr>id_s = MATCH_TOWN_ROADWORKS, name_s = ''roadworks'', params_s = 0, req_s = FOR_TOWN,
      help_s = ''=[value] for matching months remaining in road reconstructions''\<rparr>,
    \<lparr>id_s = MATCH_TOWN_EXCLUSIVE_COMPANY, name_s = ''exclusive'', params_s = 0,
      req_s = FOR_TOWN, help_s = ''=[value] for matching company having exclusive rights''\<rparr>,
    \<lparr>id_s = MATCH_TOWN_EXCLUSIVE_MONTHS, name_s = ''any_exclusive'', params_s = 0,
      req_s = FOR_TOWN,
      help_s = ''=[value] for matching months of remaining exclusive rights for any company''\<rparr>,
    \<lparr>id_s = MATCH_TOWN_EXCLUSIVE_MY_MONTHS, name_s = ''my_exclusive'', params_s = 0,
      req_s = FOR_TOWN,
      help_s = ''=[value] for matching months of remaining exclusive rights for your company''\<rparr>,
    \<lparr>id_s = MATCH_TOWN_EXCLUSIVE_OTHERS_MONTHS, name_s = ''other_exclusive'', params_s = 0,
      req_s = FOR_TOWN,
      help_s = ''=[value] for matching months of remaining exclusive rights for any competitor company''\<rparr>,
    \<lparr>id_s = MATCH_TOWN_UNWANTED_MONTHS, name_s = ''unwanted'', params_s = 0, req_s = FOR_TOWN,
      help_s = ''=[value] for matching months you are unwanted in town due to bribe''\<rparr>,
    \<lparr>id_s = MATCH_INDUSTRY_PRODUCTION, name_s = ''production'', params_s = 0,
      req_s = FOR_INDUSTRY, help_s = ''=[value] for matching industry production last month''\<rparr>,
    \<lparr>id_s = MATCH_INDUSTRY_PRODUCTION_THIS, name_s = ''thisproduction'', params_s = 0,
      req_s = FOR_INDUSTRY, help_s = ''=[value] for matching industry production this month''\<rparr>,
    \<lparr>id_s = MATCH_INDUSTRY_PERCENT, name_s = ''percent'', params_s = 0, req_s = FOR_INDUSTRY,
      help_s = ''=[value] for percent transported last month''\<rparr>,
    \<lparr>id_s = MATCH_INDUSTRY_PERCENT_THIS, name_s = ''thispercent'', params_s = 0,
      req_s = FOR_INDUSTRY, help_s = ''=[value] for percent transported this month''\<rparr>
  ]"

text \<open>Invalid commands and the invalid match.\<close>

definition INVALID_COMMAND_VEHICLE :: "VehicleCommand StringInfo" where
  "INVALID_COMMAND_VEHICLE =
     \<lparr>id_s = VEHICLE_INVALID_COMMAND, name_s = '''', params_s = 0, req_s = 0, help_s = ''''\<rparr>"

definition INVALID_COMMAND_TOWN :: "TownCommand StringInfo" where
  "INVALID_COMMAND_TOWN =
     \<lparr>id_s = TOWN_INVALID_COMMAND, name_s = '''', params_s = 0, req_s = 0, help_s = ''''\<rparr>"

definition INVALID_COMMAND_INDUSTRY :: "IndustryCommand StringInfo" where
  "INVALID_COMMAND_INDUSTRY =
     \<lparr>id_s = INDUSTRY_INVALID_COMMAND, name_s = '''', params_s = 0, req_s = 0, help_s = ''''\<rparr>"

definition INVALID_MATCH :: "MatchType StringInfo" where
  "INVALID_MATCH =
     \<lparr>id_s = MATCH_INVALID, name_s = '''', params_s = 0, req_s = 0, help_s = ''''\<rparr>"

subsection \<open>The resolver\<close>

text \<open>
  \<^verbatim>\<open>GetStringInfo\<close> reads the table forwards only: at index \<open>i\<close> it looks at entry
  \<open>i\<close> and scans from \<open>i\<close> to the first entry that is not an alias
  (\<^verbatim>\<open>while (string_array[real_i].id == LIST_ALIAS) real_i++\<close>). The model therefore
  runs over the suffix of the table that starts at \<open>i\<close>. The scan has no bound: on a
  table that ends in an alias it leaves the array, which the model reports as
  \<open>OutOfBounds\<close>.
\<close>

fun skip_alias :: "('a \<Rightarrow> int) \<Rightarrow> 'a StringInfo list \<Rightarrow> 'a StringInfo option" where
  "skip_alias val [] = None"
| "skip_alias val (e # es) = (if val (id_s e) = LIST_ALIAS then skip_alias val es else Some e)"

fun GetStringInfo_loop ::
  "('a \<Rightarrow> int) \<Rightarrow> string \<Rightarrow> 'a StringInfo \<Rightarrow> 'a StringInfo list \<Rightarrow> 'a StringInfo \<Rightarrow> bool
     \<Rightarrow> error + 'a StringInfo" where
  "GetStringInfo_loop val ident invalid_value [] cmd unique_prefix =
     (if val (id_s cmd) \<noteq> 0 \<and> unique_prefix then Inr cmd else Inr invalid_value)"
| "GetStringInfo_loop val ident invalid_value (e # es) cmd unique_prefix =
     (case skip_alias val (e # es) of
        None \<Rightarrow> Inl OutOfBounds
      | Some real \<Rightarrow>
          if stricmp ident (name_s e) = 0 then Inr real
          else if str_isprefix ident (name_s e) \<and> id_s real \<noteq> id_s cmd then
            GetStringInfo_loop val ident invalid_value es real
              (if val (id_s cmd) \<noteq> 0 then False else unique_prefix)
          else GetStringInfo_loop val ident invalid_value es cmd unique_prefix)"

definition GetStringInfo ::
  "('a \<Rightarrow> int) \<Rightarrow> string \<Rightarrow> 'a StringInfo \<Rightarrow> 'a StringInfo list \<Rightarrow> error + 'a StringInfo" where
  "GetStringInfo val ident invalid_value string_array =
     GetStringInfo_loop val ident invalid_value string_array invalid_value True"

definition GetVehicleCommand :: "string \<Rightarrow> error + VehicleCommand StringInfo" where
  "GetVehicleCommand ident =
     GetStringInfo VehicleCommand_val ident INVALID_COMMAND_VEHICLE veh_commands"

definition GetTownCommand :: "string \<Rightarrow> error + TownCommand StringInfo" where
  "GetTownCommand ident = GetStringInfo TownCommand_val ident INVALID_COMMAND_TOWN town_commands"

definition GetIndustryCommand :: "string \<Rightarrow> error + IndustryCommand StringInfo" where
  "GetIndustryCommand ident =
     GetStringInfo IndustryCommand_val ident INVALID_COMMAND_INDUSTRY ind_commands"

definition GetMatchType :: "string \<Rightarrow> error + MatchType StringInfo" where
  "GetMatchType ident = GetStringInfo MatchType_val ident INVALID_MATCH match_info"

subsection \<open>What the code reads from other files\<close>

text \<open>
  The entities are objects of types declared in other files; a record holds the fields
  and accessor results that \<^verbatim>\<open>console_cmds.cpp\<close> reads, as the C integer they are
  promoted to. The console's argument parsers, the C library's \<^verbatim>\<open>strtoull\<close>, the
  global variables and the group pool are fields of an environment.
\<close>

datatype VehicleType =
  VEH_TRAIN | VEH_ROAD | VEH_SHIP | VEH_AIRCRAFT | VEH_EFFECT | VEH_DISASTER | VEH_INVALID

text \<open>Of the order types the code tells apart \<^verbatim>\<open>OT_LOADING\<close> and \<^verbatim>\<open>OT_GOTO_DEPOT\<close>.\<close>

datatype OrderType = OT_LOADING | OT_GOTO_DEPOT | OT_OTHER

text \<open>One vehicle of the chain reached through \<^verbatim>\<open>Next()\<close>.\<close>

record Part =
  p_index :: nat
  p_IsArticulatedPart :: bool

record Vehicle =
  v_type :: VehicleType
  v_index :: nat
  v_name :: string  \<comment> \<open>the name the vehicle is displayed with; the matcher does not read it\<close>
  v_owner :: nat
  unitnumber :: int
  tile :: nat
  x_pos :: int
  y_pos :: int
  vs_stopped :: bool  \<comment> \<open>\<^verbatim>\<open>vehstatus & VS_STOPPED\<close>\<close>
  vs_crashed :: bool  \<comment> \<open>\<^verbatim>\<open>vehstatus & VS_CRASHED\<close>\<close>
  breakdown_ctr :: int
  IsInDepot :: bool
  service_interval :: int
  cur_speed :: int
  GetNumOrders :: int
  age :: int
  breakdowns_since_last_service :: int
  cached_max_speed :: int
  cached_total_length :: int
  profit_this_year :: int
  profit_last_year :: int
  group_id :: nat
  current_order_type :: OrderType
  current_order_index :: int
  current_order_halt :: bool  \<comment> \<open>\<^verbatim>\<open>GetDepotActionType() & ODATFB_HALT\<close>\<close>
  IsArticulatedPart :: bool
  Next :: "Part list"  \<comment> \<open>the vehicles after this one in its chain\<close>

record Town =
  t_index :: nat
  TownName :: string  \<comment> \<open>what \<^verbatim>\<open>TownName(t)\<close> renders\<close>
  xy :: nat
  population :: int
  num_houses :: int
  ratings :: "nat \<Rightarrow> int"
  have_ratings :: int
  noise_reached :: int
  MaxTownNoise :: int
  fund_buildings_months :: int
  road_build_months :: int
  exclusive_counter :: int
  exclusivity :: nat
  statues :: int
  unwanted :: "nat \<Rightarrow> int"
  larger_town :: bool

record Industry =
  i_index :: nat
  town :: "Town option"  \<comment> \<open>the pointer \<^verbatim>\<open>i->town\<close>, \<open>None\<close> when null\<close>
  location_tile :: nat
  last_month_production :: "int \<times> int"
  last_month_transported :: "int \<times> int"
  this_month_production :: "int \<times> int"
  this_month_transported :: "int \<times> int"
  produced_cargo_valid :: "bool \<times> bool"
  accepts_cargo_valid :: "bool \<times> bool \<times> bool"

record Group =
  g_index :: nat
  g_owner :: nat
  g_name :: string  \<comment> \<open>what \<^verbatim>\<open>GetString(buf, STR_GROUP_NAME, ...)\<close> renders\<close>

record env =
  GetArgumentInteger :: "string \<Rightarrow> 32 word option"
    \<comment> \<open>\<^verbatim>\<open>bool GetArgumentInteger(uint32 *value, const char *arg)\<close>: the value on success\<close>
  GetArgumentSignedInteger :: "string \<Rightarrow> 32 word option"
    \<comment> \<open>\<^verbatim>\<open>bool GetArgumentSignedInteger(int32 *value, const char *arg)\<close>\<close>
  strtoull :: "string \<Rightarrow> 64 word \<times> nat"
    \<comment> \<open>\<^verbatim>\<open>strtoull(arg, &endptr, 0)\<close>: the value and \<^verbatim>\<open>endptr - arg\<close>\<close>
  local_company :: nat  \<comment> \<open>\<^verbatim>\<open>_local_company\<close>\<close>
  Company_IsValidID :: "nat \<Rightarrow> bool"
  companies :: "nat list"  \<comment> \<open>the indices \<^verbatim>\<open>FOR_ALL_COMPANIES\<close> visits\<close>
  INVALID_COMPANY :: nat
  game_mode_editor :: bool  \<comment> \<open>\<^verbatim>\<open>_game_mode == GM_EDITOR\<close>\<close>
  groups :: "Group list"  \<comment> \<open>the groups in the order of \<^verbatim>\<open>FOR_ALL_GROUPS\<close>\<close>
  ICON_MAX_STREAMSIZE :: nat
  DEPOT_SERVICE :: int
  GetServiceIntervalClamped :: "int \<Rightarrow> nat \<Rightarrow> int"
  InteractiveRandom :: "32 word"
  uninitialized_buf :: string
    \<comment> \<open>what the local array \<^verbatim>\<open>buf\<close> of \<^verbatim>\<open>GetGroupByName\<close> holds before it is written\<close>

subsection \<open>What the code does to the outside\<close>

datatype Command =
    CMD_CHANGE_SERVICE_INT
  | CMD_SKIP_TO_ORDER
  | CMD_FORCE_TRAIN_PROCEED
  | CMD_REVERSE_TRAIN_DIRECTION
  | CMD_TURN_ROADVEH
  | CMD_START_STOP_VEHICLE
  | CMD_CLONE_VEHICLE
  | CMD_DO_TOWN_ACTION
  | GetCmdSendToDepot VehicleType
  | GetCmdSellVeh VehicleType

datatype ConsoleColour = CC_DEFAULT | CC_ERROR

text \<open>
  Every call into another part of the program is an event, in the order of the calls.
  \<open>DoCommandP tile p1 p2 cmd\<close> is a game action handed to the command-submission
  layer. Of a formatted console line the format string and its integer arguments
  are kept where all arguments are integers, the format string alone otherwise.
\<close>

datatype event =
    IConsoleError string
  | IConsoleHelp string
  | IConsolePrintF ConsoleColour string "int list"
  | DoCommandP nat int int Command
  | ScrollMainWindowToTile nat
  | ScrollMainWindowTo int int
  | ShowVehicleViewWindow nat
  | ShowTownViewWindow nat
  | ShowTownAuthorityWindow nat
  | ShowIndustryViewWindow nat
  | GrowTown nat
  | delete_Town nat
  | delete_Industry nat

subsection \<open>Parsing numbers\<close>

text \<open>
  \<^verbatim>\<open>atoi\<close> of the C library: white space, an optional sign, then decimal digits up to
  the first other character; without digits the result is 0. The GNU C library computes
  it as \<^verbatim>\<open>(int) strtol(s, NULL, 10)\<close>: \<^verbatim>\<open>strtol\<close> clamps the number written to the range
  of a 64-bit \<^verbatim>\<open>long\<close>, and the conversion to \<^verbatim>\<open>int\<close> keeps the low 32 bits, read as a
  signed number. So \<^verbatim>\<open>atoi("4294967296")\<close> is 0 and \<^verbatim>\<open>atoi("2147483648")\<close> is -2147483648.
\<close>

definition isspace :: "char \<Rightarrow> bool" where
  "isspace c = (let n = (of_char c :: nat) in n = 32 \<or> (9 \<le> n \<and> n \<le> 13))"

definition isdigit :: "char \<Rightarrow> bool" where
  "isdigit c = (let n = (of_char c :: nat) in 48 \<le> n \<and> n \<le> 57)"

fun atoi_digits :: "int \<Rightarrow> string \<Rightarrow> int" where
  "atoi_digits acc [] = acc"
| "atoi_digits acc (c # cs) =
     (if isdigit c then atoi_digits (acc * 10 + (of_char c - 48)) cs else acc)"

definition strtol :: "string \<Rightarrow> int" where
  "strtol s =
     (let v = (case dropWhile isspace s of
                 [] \<Rightarrow> 0
               | c # cs \<Rightarrow>
                   if c = CHR ''-'' then - atoi_digits 0 cs
                   else if c = CHR ''+'' then atoi_digits 0 cs
                   else atoi_digits 0 (c # cs))
      in if v > 9223372036854775807 then 9223372036854775807
         else if v < - 9223372036854775808 then - 9223372036854775808
         else v)"

definition long_to_int :: "int \<Rightarrow> int" where
  "long_to_int x =
     (let m = x mod 4294967296 in if m \<ge> 2147483648 then m - 4294967296 else m)"

definition atoi :: "string \<Rightarrow> int" where
  "atoi s = long_to_int (strtol s)"

text \<open>
  \<^verbatim>\<open>Money\<close> is a 64-bit integer whose addition saturates (declared in another file);
  the model holds its value as an \<^typ>\<open>int\<close>. \<^verbatim>\<open>GetArgumentMoney\<close> stores the
  \<^verbatim>\<open>unsigned long long\<close> of \<^verbatim>\<open>strtoull\<close> into it and succeeds when a character was
  consumed.
\<close>

definition Money_add :: "int \<Rightarrow> int \<Rightarrow> int" where
  "Money_add a b = max (- (2 ^ 63)) (min (2 ^ 63 - 1) (a + b))"

definition GetArgumentMoney :: "env \<Rightarrow> string \<Rightarrow> int option" where
  "GetArgumentMoney env arg =
     (let (value, consumed) = strtoull env arg in
      if consumed \<noteq> 0 then Some (sint value) else None)"

text \<open>Division of C integers truncates towards zero.\<close>

definition c_div :: "int \<Rightarrow> int \<Rightarrow> int" where
  "c_div a b = sgn a * sgn b * (\<bar>a\<bar> div \<bar>b\<bar>)"

definition c_mod :: "int \<Rightarrow> int \<Rightarrow> int" where
  "c_mod a b = a - b * c_div a b"

text \<open>The conversion of a C integer to \<^verbatim>\<open>uint32\<close>.\<close>

definition to_uint32 :: "int \<Rightarrow> 32 word" where
  "to_uint32 x = word_of_int x"

subsection \<open>Comparing a value with a criterion\<close>

definition NumericMatch :: "'a::linorder \<Rightarrow> MatchSubtype \<Rightarrow> 'a \<Rightarrow> error + bool" where
  "NumericMatch value subtype target_value =
     (case subtype of
        MATCH_EQUAL \<Rightarrow> Inr (value = target_value)
      | MATCH_NOT_EQUAL \<Rightarrow> Inr (value \<noteq> target_value)
      | MATCH_LESS \<Rightarrow> Inr (value < target_value)
      | MATCH_LESS_OR_EQUAL \<Rightarrow> Inr (value \<le> target_value)
      | MATCH_GREATER_OR_EQUAL \<Rightarrow> Inr (value \<ge> target_value)
      | MATCH_GREATER \<Rightarrow> Inr (value > target_value)
      | MATCH_NONE \<Rightarrow> Inl NotReached)"

definition NumericValueSubMatch :: "env \<Rightarrow> 32 word \<Rightarrow> MatchSubtype \<Rightarrow> string \<Rightarrow> error + bool" where
  "NumericValueSubMatch env value subtype target_value_str =
     (case GetArgumentInteger env target_value_str of
        None \<Rightarrow> Inr False
      | Some target_value \<Rightarrow> NumericMatch value subtype target_value)"

definition MoneyValueSubMatch :: "env \<Rightarrow> int \<Rightarrow> MatchSubtype \<Rightarrow> string \<Rightarrow> error + bool" where
  "MoneyValueSubMatch env value subtype target_value_str =
     (case GetArgumentMoney env target_value_str of
        None \<Rightarrow> Inr False
      | Some target_value \<Rightarrow> NumericMatch value subtype target_value)"

definition StringValueSubMatch :: "string \<Rightarrow> MatchSubtype \<Rightarrow> string \<Rightarrow> error + bool" where
  "StringValueSubMatch value subtype target_value =
     (let res = strcasecmp value target_value in NumericMatch res subtype 0)"

text \<open>
  \<^verbatim>\<open>CountWagons\<close> walks the chain from the vehicle itself; the engine counts as a
  wagon.
\<close>

definition CountWagons :: "Vehicle \<Rightarrow> int" where
  "CountWagons v = 1 + int (length (Next v))"

subsection \<open>Filter criteria\<close>

text \<open>
  \<^verbatim>\<open>class MatchInfo\<close>: type, subtype, parameter and the next match in the chain
  (\<open>None\<close> for the null pointer).
\<close>

datatype MatchInfo =
  MatchInfo (type_m: MatchType) (subtype_m: MatchSubtype) (id_m: string)
    (next_m: "MatchInfo option")

subsection \<open>The matchers\<close>

text \<open>
  Each matcher first matches the rest of the chain
  (\<^verbatim>\<open>if (m->next) { if (!VehicleMatches(v, m->next)) return false; }\<close>) and then
  runs its \<^verbatim>\<open>switch\<close> on the criterion itself. The \<^verbatim>\<open>switch\<close> is a function of
  its own here.

  \<^verbatim>\<open>Train::From(v)\<close> asserts that the vehicle is a train (it is declared in another file).
\<close>

definition Group_Get :: "env \<Rightarrow> nat \<Rightarrow> Group option" where
  "Group_Get env gid = find (\<lambda>g. g_index g = gid) (groups env)"

definition VehicleMatches_switch :: "env \<Rightarrow> Vehicle \<Rightarrow> MatchInfo \<Rightarrow> error + bool" where
  "VehicleMatches_switch env v m =
     (case type_m m of
        MATCH_ALL \<Rightarrow> Inr True
      | MATCH_CRASHED \<Rightarrow> Inr (vs_crashed v)
      | MATCH_BROKEN \<Rightarrow> Inr (breakdown_ctr v \<noteq> 0)
      | MATCH_IN_DEPOT \<Rightarrow> Inr (IsInDepot v)
      | MATCH_SERVICE \<Rightarrow>
          NumericValueSubMatch env (to_uint32 (service_interval v)) (subtype_m m) (id_m m)
      | MATCH_SPEED \<Rightarrow> NumericValueSubMatch env (to_uint32 (cur_speed v)) (subtype_m m) (id_m m)
      | MATCH_ORDERS \<Rightarrow>
          NumericValueSubMatch env (to_uint32 (GetNumOrders v)) (subtype_m m) (id_m m)
      | MATCH_AGE \<Rightarrow>
          NumericValueSubMatch env (to_uint32 (c_div (age v) 365)) (subtype_m m) (id_m m)
      | MATCH_BREAKDOWNS \<Rightarrow>
          NumericValueSubMatch env (to_uint32 (breakdowns_since_last_service v)) (subtype_m m)
            (id_m m)
      | MATCH_MAXSPEED \<Rightarrow>
          (if v_type v = VEH_TRAIN then
             NumericValueSubMatch env (to_uint32 (cached_max_speed v)) (subtype_m m) (id_m m)
           else NumericValueSubMatch env (to_uint32 (cached_max_speed v)) (subtype_m m) (id_m m))
      | MATCH_LENGTH \<Rightarrow>
          (if v_type v \<noteq> VEH_TRAIN then Inl AssertionFailed
           else NumericValueSubMatch env (to_uint32 (c_div (cached_total_length v + 15) 16))
                  (subtype_m m) (id_m m))
      | MATCH_WAGONS \<Rightarrow>
          (if v_type v \<noteq> VEH_TRAIN then Inl AssertionFailed
           else let num_wagons = CountWagons v in
             NumericValueSubMatch env (to_uint32 num_wagons) (subtype_m m) (id_m m))
      | MATCH_GENERIC \<Rightarrow> NumericValueSubMatch env (to_uint32 (unitnumber v)) MATCH_EQUAL (id_m m)
      | MATCH_PROFIT \<Rightarrow>
          MoneyValueSubMatch env (Money_add (profit_this_year v) (profit_last_year v))
            (subtype_m m) (id_m m)
      | MATCH_PROFIT_THIS \<Rightarrow> MoneyValueSubMatch env (profit_this_year v) (subtype_m m) (id_m m)
      | MATCH_PROFIT_LAST \<Rightarrow> MoneyValueSubMatch env (profit_last_year v) (subtype_m m) (id_m m)
      | MATCH_GROUP \<Rightarrow>
          (case Group_Get env (group_id v) of
             None \<Rightarrow> Inr False
           | Some g \<Rightarrow> StringValueSubMatch (g_name g) (subtype_m m) (id_m m))
      | _ \<Rightarrow> Inl NotReached)"

fun VehicleMatches :: "env \<Rightarrow> Vehicle \<Rightarrow> MatchInfo \<Rightarrow> error + bool" where
  "VehicleMatches env v (MatchInfo t st ident nx) =
     (case (case nx of None \<Rightarrow> Inr True | Some n \<Rightarrow> VehicleMatches env v n) of
        Inl e \<Rightarrow> Inl e
      | Inr rest \<Rightarrow>
          if \<not> rest then Inr False
          else VehicleMatches_switch env v (MatchInfo t st ident nx))"

definition HasBit :: "int \<Rightarrow> nat \<Rightarrow> bool" where
  "HasBit x y = (x AND push_bit y 1 \<noteq> 0)"

definition TownMatches_switch :: "env \<Rightarrow> Town \<Rightarrow> MatchInfo \<Rightarrow> error + bool" where
  "TownMatches_switch env t m =
     (let have_company = Company_IsValidID env (local_company env) in
      case type_m m of
        MATCH_TOWN_POPULATION \<Rightarrow>
          NumericValueSubMatch env (to_uint32 (population t)) (subtype_m m) (id_m m)
      | MATCH_TOWN_HOUSES \<Rightarrow>
          NumericValueSubMatch env (to_uint32 (num_houses t)) (subtype_m m) (id_m m)
      | MATCH_TOWN_RATING \<Rightarrow>
          (if \<not> Company_IsValidID env (local_company env) then Inr False
           else NumericValueSubMatch env (to_uint32 (ratings t (local_company env)))
                  (subtype_m m) (id_m m))
      | MATCH_TOWN_NOISE \<Rightarrow>
          NumericValueSubMatch env (to_uint32 (noise_reached t)) (subtype_m m) (id_m m)
      | MATCH_TOWN_NOISE_REMAIN \<Rightarrow>
          NumericValueSubMatch env (to_uint32 (MaxTownNoise t - noise_reached t)) (subtype_m m)
            (id_m m)
      | MATCH_TOWN_NOISE_MAX \<Rightarrow>
          NumericValueSubMatch env (to_uint32 (MaxTownNoise t)) (subtype_m m) (id_m m)
      | MATCH_TOWN_FUNDING \<Rightarrow>
          NumericValueSubMatch env (to_uint32 (fund_buildings_months t)) (subtype_m m) (id_m m)
      | MATCH_TOWN_ROADWORKS \<Rightarrow>
          NumericValueSubMatch env (to_uint32 (road_build_months t)) (subtype_m m) (id_m m)
      | MATCH_TOWN_EXCLUSIVE_COMPANY \<Rightarrow>
          (if exclusive_counter t = 0 then Inr False
           else NumericValueSubMatch env (to_uint32 (int (exclusivity t))) (subtype_m m) (id_m m))
      | MATCH_TOWN_EXCLUSIVE_MONTHS \<Rightarrow>
          NumericValueSubMatch env (to_uint32 (exclusive_counter t)) (subtype_m m) (id_m m)
      | MATCH_TOWN_EXCLUSIVE_MY_MONTHS \<Rightarrow>
          (if \<not> have_company then Inr False
           else if exclusivity t \<noteq> local_company env then Inr False
           else NumericValueSubMatch env (to_uint32 (exclusive_counter t)) (subtype_m m) (id_m m))
      | MATCH_TOWN_EXCLUSIVE_OTHERS_MONTHS \<Rightarrow>
          (if \<not> have_company then Inr False
           else if exclusivity t = local_company env then Inr False
           else if exclusivity t = INVALID_COMPANY env then Inr False
           else NumericValueSubMatch env (to_uint32 (exclusive_counter t)) (subtype_m m) (id_m m))
      | MATCH_TOWN_STATUE \<Rightarrow>
          (if \<not> have_company then Inr False else Inr (HasBit (statues t) (local_company env)))
      | MATCH_TOWN_NO_STATUE \<Rightarrow>
          (if \<not> have_company then Inr False
           else Inr (\<not> HasBit (statues t) (local_company env)))
      | MATCH_TOWN_UNWANTED_MONTHS \<Rightarrow>
          (if \<not> have_company then Inr False
           else NumericValueSubMatch env (to_uint32 (unwanted t (local_company env)))
                  (subtype_m m) (id_m m))
      | MATCH_GENERIC \<Rightarrow>
          (let n_id = atoi (id_m m) in
           Inr (stricmp (TownName t) (id_m m) = 0 \<or> int (t_index t) = n_id))
      | MATCH_ALL \<Rightarrow> Inr True
      | _ \<Rightarrow> Inl NotReached)"

fun TownMatches :: "env \<Rightarrow> Town \<Rightarrow> MatchInfo \<Rightarrow> error + bool" where
  "TownMatches env t (MatchInfo ty st ident nx) =
     (case (case nx of None \<Rightarrow> Inr True | Some n \<Rightarrow> TownMatches env t n) of
        Inl e \<Rightarrow> Inl e
      | Inr rest \<Rightarrow>
          if \<not> rest then Inr False
          else TownMatches_switch env t (MatchInfo ty st ident nx))"

definition IndustryMatches_switch :: "env \<Rightarrow> Industry \<Rightarrow> MatchInfo \<Rightarrow> error + bool" where
  "IndustryMatches_switch env i m =
     (case town i of
        None \<Rightarrow> Inl AssertionFailed
      | Some i_town \<Rightarrow>
         (case type_m m of
            MATCH_GENERIC \<Rightarrow>
              (let n_id = atoi (id_m m) in
               Inr (stricmp (TownName i_town) (id_m m) = 0 \<or> int (i_index i) = n_id))
          | MATCH_ALL \<Rightarrow> Inr True
          | MATCH_INDUSTRY_PRODUCTION \<Rightarrow>
              (let production = fst (last_month_production i) + snd (last_month_production i)
               in NumericValueSubMatch env (to_uint32 production) (subtype_m m) (id_m m))
          | MATCH_INDUSTRY_PERCENT \<Rightarrow>
              (let production = fst (last_month_production i) + snd (last_month_production i);
                   transport = fst (last_month_transported i) + snd (last_month_transported i)
               in NumericValueSubMatch env
                    (to_uint32 (if production \<noteq> 0 then c_div (transport * 100) production else 0))
                    (subtype_m m) (id_m m))
          | MATCH_INDUSTRY_PRODUCTION_THIS \<Rightarrow>
              (let production = fst (this_month_production i) + snd (this_month_production i)
               in NumericValueSubMatch env (to_uint32 production) (subtype_m m) (id_m m))
          | MATCH_INDUSTRY_PERCENT_THIS \<Rightarrow>
              (let production = fst (this_month_production i) + snd (this_month_production i);
                   transport = fst (this_month_transported i) + snd (this_month_transported i)
               in NumericValueSubMatch env
                    (to_uint32 (if production \<noteq> 0 then c_div (transport * 100) production else 0))
                    (subtype_m m) (id_m m))
          | _ \<Rightarrow> Inl NotReached))"

fun IndustryMatches :: "env \<Rightarrow> Industry \<Rightarrow> MatchInfo \<Rightarrow> error + bool" where
  "IndustryMatches env i (MatchInfo ty st ident nx) =
     (case (case nx of None \<Rightarrow> Inr True | Some n \<Rightarrow> IndustryMatches env i n) of
        Inl e \<Rightarrow> Inl e
      | Inr rest \<Rightarrow>
          if \<not> rest then Inr False
          else IndustryMatches_switch env i (MatchInfo ty st ident nx))"

text \<open>The criteria of a chain, each on its own (its link to the next one removed).\<close>

fun criteria :: "MatchInfo \<Rightarrow> MatchInfo list" where
  "criteria (MatchInfo t st ident nx) =
     MatchInfo t st ident None # (case nx of None \<Rightarrow> [] | Some n \<Rightarrow> criteria n)"

subsection \<open>Group names\<close>

text \<open>
  \<^verbatim>\<open>GetGroupByName\<close>: the array \<open>buf\<close> is written only for a group of the local
  company and keeps its content otherwise. The loop state is \<open>buf\<close>, the two
  candidates and the two flags.
\<close>

fun GetGroupByName_loop ::
  "env \<Rightarrow> string \<Rightarrow> Group list \<Rightarrow> string \<Rightarrow> Group option \<Rightarrow> Group option \<Rightarrow> bool \<Rightarrow> bool
     \<Rightarrow> Group option" where
  "GetGroupByName_loop env name [] buf nocase_g prefix_g unique_nocase unique_prefix =
     (if nocase_g \<noteq> None \<and> unique_nocase then nocase_g
      else if prefix_g \<noteq> None \<and> unique_prefix then prefix_g
      else None)"
| "GetGroupByName_loop env name (g # gs) buf nocase_g prefix_g unique_nocase unique_prefix =
     (let buf' = (if g_owner g = local_company env then g_name g else buf) in
      if buf' = name then Some g
      else if stricmp buf' name = 0 then
        GetGroupByName_loop env name gs buf' (Some g) prefix_g
          (if nocase_g \<noteq> None then False else unique_nocase) unique_prefix
      else if str_isprefix name buf' then
        GetGroupByName_loop env name gs buf' nocase_g (Some g) unique_nocase
          (if prefix_g \<noteq> None then False else unique_prefix)
      else GetGroupByName_loop env name gs buf' nocase_g prefix_g unique_nocase unique_prefix)"

definition GetGroupByName :: "env \<Rightarrow> string \<Rightarrow> Group option" where
  "GetGroupByName env name =
     GetGroupByName_loop env name (groups env) (uninitialized_buf env) None None True True"

subsection \<open>Building the filter chain\<close>

text \<open>
  \<^verbatim>\<open>CheckMatch(const char *match_id, int mask)\<close>. \<^verbatim>\<open>strcspn(match_id, "<>=")\<close> is the
  length of the longest prefix without an operator character. The key is copied into
  an array of \<^verbatim>\<open>ICON_MAX_STREAMSIZE\<close> characters and terminated at index
  \<open>keylen\<close>. The result is the new \<^verbatim>\<open>MatchInfo\<close> (\<open>None\<close> for \<^verbatim>\<open>NULL\<close>) and what
  was printed.
\<close>

definition strcspn_ops :: "string \<Rightarrow> nat" where
  "strcspn_ops match_id = length (takeWhile (\<lambda>c. c \<notin> set ''<>='') match_id)"

definition CheckMatch_operator :: "string \<Rightarrow> nat \<Rightarrow> MatchSubtype \<times> string" where
  "CheckMatch_operator match_id keylen =
     (case drop keylen match_id of
        [] \<Rightarrow> (MATCH_NONE, match_id)
      | c # ident \<Rightarrow>
          if c = CHR ''='' then (MATCH_EQUAL, ident)
          else if c = CHR ''<'' then
            (case ident of
               [] \<Rightarrow> (MATCH_LESS, ident)
             | d # ident' \<Rightarrow>
                 if d = CHR ''='' then (MATCH_LESS_OR_EQUAL, ident')
                 else if d = CHR ''>'' then (MATCH_NOT_EQUAL, ident')
                 else (MATCH_LESS, ident))
          else if c = CHR ''>'' then
            (case ident of
               [] \<Rightarrow> (MATCH_GREATER, ident)
             | d # ident' \<Rightarrow>
                 if d = CHR ''='' then (MATCH_GREATER_OR_EQUAL, ident')
                 else (MATCH_GREATER, ident))
          else (MATCH_NONE, match_id))"

definition CheckMatch_special :: "string \<Rightarrow> int \<Rightarrow> MatchType \<Rightarrow> MatchType" where
  "CheckMatch_special match_id kind_mask match_type =
     (case find (\<lambda>e. req_s e AND kind_mask \<noteq> 0 \<and> stricmp match_id (name_s e) = 0) match_nn_info of
        Some e \<Rightarrow> id_s e
      | None \<Rightarrow> match_type)"

definition CheckMatch :: "env \<Rightarrow> string \<Rightarrow> int \<Rightarrow> error + (MatchInfo option \<times> event list)" where
  "CheckMatch env match_id kind_mask =
     (let keylen = strcspn_ops match_id;
          (match_subtype, ident) = CheckMatch_operator match_id keylen
      in
      if keylen \<noteq> 0 then
        if keylen \<ge> ICON_MAX_STREAMSIZE env then Inl OutOfBounds
        else
          (case GetMatchType (take keylen match_id) of
             Inl e \<Rightarrow> Inl e
           | Inr match \<Rightarrow>
               if MatchType_val (id_s match) \<noteq> 0 then
                 if req_s match AND kind_mask = 0 then
                   Inr (None, [IConsoleError ''You have specified invalid match type for this query.''])
                 else
                   Inr (Some (MatchInfo (CheckMatch_special match_id kind_mask (id_s match))
                                match_subtype ident None), [])
               else
                 Inr (Some (MatchInfo (CheckMatch_special match_id kind_mask MATCH_GENERIC)
                              match_subtype ident None), []))
      else
        Inr (Some (MatchInfo (CheckMatch_special match_id kind_mask MATCH_GENERIC)
                     match_subtype ident None), []))"

text \<open>
  \<^verbatim>\<open>CheckMatch(byte &argc, char** &argv, int mask)\<close> consumes arguments; the model
  returns the chain, the arguments that remain and what was printed.
\<close>

fun CheckMatch_argv_loop ::
  "env \<Rightarrow> int \<Rightarrow> string list \<Rightarrow> MatchInfo option
     \<Rightarrow> error + (MatchInfo option \<times> string list \<times> event list)" where
  "CheckMatch_argv_loop env kind_mask [] m = Inr (m, [], [])"
| "CheckMatch_argv_loop env kind_mask (a # argv) m =
     (case CheckMatch env a kind_mask of
        Inl e \<Rightarrow> Inl e
      | Inr (None, out) \<Rightarrow> Inr (None, a # argv, out)
      | Inr (Some tm, out) \<Rightarrow>
          (let m' = MatchInfo (type_m tm) (subtype_m tm) (id_m tm) m in
           case argv of
             [] \<Rightarrow> Inr (Some m', [], out)
           | b # argv' \<Rightarrow>
               if \<not> (stricmp b ''and'' = 0 \<or> stricmp b ''&'' = 0) then
                 Inr (Some m', b # argv', out)
               else
                 (case CheckMatch_argv_loop env kind_mask argv' (Some m') of
                    Inl e \<Rightarrow> Inl e
                  | Inr (r, rest, out') \<Rightarrow> Inr (r, rest, out @ out'))))"

definition CheckMatch_argv ::
  "env \<Rightarrow> string list \<Rightarrow> int \<Rightarrow> error + (MatchInfo option \<times> string list \<times> event list)" where
  "CheckMatch_argv env argv kind_mask =
     (if length argv < 3 then Inr (None, argv, [])
      else CheckMatch_argv_loop env kind_mask (tl argv) None)"

subsection \<open>The command handlers\<close>

text \<open>
  A handler returns its \<^verbatim>\<open>int\<close> result (1 when the command was carried out, 0 when
  it was not) and the events it caused.
\<close>

definition DoTownCommand_info_company :: "Town \<Rightarrow> nat \<Rightarrow> event list" where
  "DoTownCommand_info_company t i =
     (if HasBit (have_ratings t) i \<or> exclusivity t = i \<or> HasBit (statues t) i then
        [IConsolePrintF CC_DEFAULT '' Company %2d : rating %d%s%s%s'' []]
        @ (if exclusivity t = i then
             [IConsolePrintF CC_DEFAULT ''  Exclusivity expires in %d months'' [exclusive_counter t]]
           else [])
        @ (if unwanted t i \<noteq> 0 then
             [IConsolePrintF CC_DEFAULT ''  Unwanted for %d months'' [unwanted t i]]
           else [])
      else [])"

definition DoTownCommand :: "env \<Rightarrow> Town \<Rightarrow> TownCommand \<Rightarrow> string list \<Rightarrow> error + (int \<times> event list)" where
  "DoTownCommand env t command argv =
     (case command of
        TOWN_COUNT \<Rightarrow> Inr (1, [])
      | TOWN_CENTER \<Rightarrow> Inr (1, [ScrollMainWindowToTile (xy t)])
      | TOWN_PRINT \<Rightarrow> Inr (1, [IConsolePrintF CC_DEFAULT ''%-20s  (%d)'' []])
      | TOWN_INFO \<Rightarrow>
          Inr (1,
            [IConsolePrintF CC_DEFAULT ''ID: %4d %-20s, population: %4d houses: %4d%s'' [],
             IConsolePrintF CC_DEFAULT ''  Noise: %d/%d, Road layout: %s'' []]
            @ (if fund_buildings_months t \<noteq> 0 then
                 [IConsolePrintF CC_DEFAULT ''  Fund buildings : %d months.''
                    [fund_buildings_months t]]
               else [])
            @ (if road_build_months t \<noteq> 0 then
                 [IConsolePrintF CC_DEFAULT '' Road reconstruction : %d months.''
                    [road_build_months t]]
               else [])
            @ concat (map (DoTownCommand_info_company t) (companies env)))
      | TOWN_OPEN \<Rightarrow> Inr (1, [ShowTownViewWindow (t_index t)])
      | TOWN_OPEN_AUTH \<Rightarrow> Inr (1, [ShowTownAuthorityWindow (t_index t)])
      | TOWN_EXPAND \<Rightarrow>
          (let rep = (if argv \<noteq> [] then atoi (hd argv) else 1) in
           Inr (1, replicate (nat rep) (GrowTown (t_index t))))
      | TOWN_DELETE \<Rightarrow> Inr (1, [delete_Town (t_index t)])
      | TOWN_COMMAND_ALIAS \<Rightarrow> Inl NotReached
      | TOWN_INVALID_COMMAND \<Rightarrow> Inl NotReached
      | _ \<Rightarrow>
          Inr (1, [DoCommandP (xy t) (int (t_index t))
                     (TownCommand_val command - TownCommand_val TOWN_ACTION_0)
                     CMD_DO_TOWN_ACTION]))"

definition DoIndustryCommand_info_produced :: "Industry \<Rightarrow> bool \<Rightarrow> event list" where
  "DoIndustryCommand_info_produced i valid =
     (if \<not> valid then []
      else [IConsolePrintF CC_DEFAULT ''  Cargo produced: %s (%d per month, %d waiting)'' [],
            IConsolePrintF CC_DEFAULT ''    This month transported/produced: %d/%d (%d%%)'' [],
            IConsolePrintF CC_DEFAULT ''    Last month transported/produced: %d/%d (%d%%)'' []])"

definition DoIndustryCommand_info_accepted :: "Industry \<Rightarrow> bool \<Rightarrow> event list" where
  "DoIndustryCommand_info_accepted i valid =
     (if \<not> valid then []
      else [IConsolePrintF CC_DEFAULT ''  Cargo accepted: %s (waiting %d)'' []])"

definition DoIndustryCommand ::
  "env \<Rightarrow> Industry \<Rightarrow> IndustryCommand \<Rightarrow> string list \<Rightarrow> error + (int \<times> event list)" where
  "DoIndustryCommand env i command argv =
     (case command of
        INDUSTRY_COUNT \<Rightarrow> Inr (1, [])
      | INDUSTRY_CENTER \<Rightarrow> Inr (1, [ScrollMainWindowToTile (location_tile i)])
      | INDUSTRY_INFO \<Rightarrow>
          Inr (1,
            [IConsolePrintF CC_DEFAULT ''ID: %d Town: %-20s'' [],
             IConsolePrintF CC_DEFAULT ''  Size: %d x %d'' []]
            @ DoIndustryCommand_info_produced i (fst (produced_cargo_valid i))
            @ DoIndustryCommand_info_produced i (snd (produced_cargo_valid i))
            @ [IConsolePrintF CC_DEFAULT ''  General production level: %d'' []]
            @ DoIndustryCommand_info_accepted i (fst (accepts_cargo_valid i))
            @ DoIndustryCommand_info_accepted i (fst (snd (accepts_cargo_valid i)))
            @ DoIndustryCommand_info_accepted i (snd (snd (accepts_cargo_valid i))))
      | INDUSTRY_OPEN \<Rightarrow> Inr (1, [ShowIndustryViewWindow (i_index i)])
      | INDUSTRY_DELETE \<Rightarrow>
          Inr (1,
            [IConsolePrintF CC_DEFAULT ''ID: %d Town: %-20s'' [],
             IConsolePrintF CC_DEFAULT ''  Size: %d x %d'' [],
             delete_Industry (i_index i)])
      | _ \<Rightarrow> Inl NotReached)"

text \<open>
  The wagon loop of \<^verbatim>\<open>TRAIN_SELL_WAGON\<close>. \<open>tr_v\<close> is the rest of the train from
  the current vehicle on, \<open>[]\<close> for the null pointer; \<open>to_be_sold\<close> is the array of
  100 vehicle ids. The statement \<^verbatim>\<open>num_to_sell;\<close> of the source has no effect, so
  \<open>num_to_sell\<close> is passed on unchanged.
\<close>

fun skip_articulated :: "Part list \<Rightarrow> Part list" where
  "skip_articulated [] = []"
| "skip_articulated (p # ps) = (if p_IsArticulatedPart p then skip_articulated ps else p # ps)"

function TRAIN_SELL_WAGON_loop ::
  "32 word \<Rightarrow> 32 word \<Rightarrow> 32 word \<Rightarrow> Part list \<Rightarrow> nat list \<Rightarrow> nat \<Rightarrow> error + (nat list \<times> nat)" where
  "TRAIN_SELL_WAGON_loop i min_w max_w tr_v to_be_sold num_to_sell =
     (if \<not> i \<le> max_w then Inr (to_be_sold, num_to_sell)
      else
        (case skip_articulated tr_v of
           [] \<Rightarrow> Inr (to_be_sold, num_to_sell)
         | p # ps \<Rightarrow>
             if i \<ge> min_w then
               if num_to_sell \<ge> length to_be_sold then Inl OutOfBounds
               else
                 (let to_be_sold' = to_be_sold[num_to_sell := p_index p] in
                  if num_to_sell \<ge> length to_be_sold' then Inr (to_be_sold', num_to_sell)
                  else TRAIN_SELL_WAGON_loop (i + 1) min_w max_w ps to_be_sold' num_to_sell)
             else TRAIN_SELL_WAGON_loop (i + 1) min_w max_w ps to_be_sold num_to_sell))"
  by pat_completeness auto
termination
proof (relation "measure (\<lambda>(i, min_w, max_w, tr_v, to_be_sold, num_to_sell). length tr_v)")
  have len: "\<And>xs. length (skip_articulated xs) \<le> length xs"
  proof -
    fix xs :: "Part list"
    show "length (skip_articulated xs) \<le> length xs" by (induction xs) auto
  qed
  fix i min_w max_w :: "32 word" and tr_v ps :: "Part list" and p :: Part
    and to_be_sold xa :: "nat list" and num_to_sell :: nat
  assume a: "skip_articulated tr_v = p # ps"
  have "length (p # ps) \<le> length tr_v" using len[of tr_v] a by simp
  then have lt: "length ps < length tr_v" by simp
  show "((i + 1, min_w, max_w, ps, xa, num_to_sell), i, min_w, max_w, tr_v, to_be_sold, num_to_sell)
          \<in> measure (\<lambda>(i, min_w, max_w, tr_v, to_be_sold, num_to_sell). length tr_v)"
    using lt by simp
  show "((i + 1, min_w, max_w, ps, to_be_sold, num_to_sell), i, min_w, max_w, tr_v, to_be_sold, num_to_sell)
          \<in> measure (\<lambda>(i, min_w, max_w, tr_v, to_be_sold, num_to_sell). length tr_v)"
    using lt by simp
qed simp

declare TRAIN_SELL_WAGON_loop.simps [simp del]

text \<open>The vehicle itself as the first element of its chain.\<close>

definition Train_chain :: "Vehicle \<Rightarrow> Part list" where
  "Train_chain v = \<lparr>p_index = v_index v, p_IsArticulatedPart = IsArticulatedPart v\<rparr> # Next v"

definition DoVehicleCommand_skip ::
  "Vehicle \<Rightarrow> VehicleCommand \<Rightarrow> int \<Rightarrow> error + (int \<times> event list)" where
  "DoVehicleCommand_skip v command num_orders =
     (if command = VEHICLE_LEAVE_STATION \<and> current_order_type v \<noteq> OT_LOADING then Inr (0, [])
      else if num_orders = 0 then Inr (0, [])
      else if GetNumOrders v = 0 then Inl DivisionByZero
      else
        (let new_order = c_mod (current_order_index v + num_orders) (GetNumOrders v);
             new_order = (if new_order < 0 then GetNumOrders v else new_order)
         in if \<not> new_order \<ge> 0 then Inl AssertionFailed
            else Inr (1, [DoCommandP (tile v) (int (v_index v)) new_order CMD_SKIP_TO_ORDER])))"

definition DoVehicleCommand_depot ::
  "env \<Rightarrow> Vehicle \<Rightarrow> VehicleCommand \<Rightarrow> error + (int \<times> event list)" where
  "DoVehicleCommand_depot env v command =
     (let send = Inr (1, [DoCommandP (tile v) (int (v_index v))
                            (if command = VEHICLE_SERVICE \<or> command = VEHICLE_UNSERVICE
                             then DEPOT_SERVICE env else 0)
                            (GetCmdSendToDepot (v_type v))])
      in
      if vs_stopped v \<and> IsInDepot v then Inr (0, [])
      else if current_order_type v = OT_GOTO_DEPOT then
        (let halt_in_depot = current_order_halt v in
         if halt_in_depot then
           if command = VEHICLE_DEPOT then Inr (0, [])
           else if command = VEHICLE_UNSERVICE then Inr (0, [])
           else send
         else
           if command = VEHICLE_UNDEPOT then Inr (0, [])
           else if command = VEHICLE_SERVICE then Inr (0, [])
           else send)
      else if command = VEHICLE_UNDEPOT \<or> command = VEHICLE_UNSERVICE then Inr (0, [])
      else send)"

definition DoVehicleCommand_wsell :: "env \<Rightarrow> Vehicle \<Rightarrow> string list \<Rightarrow> error + (int \<times> event list)" where
  "DoVehicleCommand_wsell env v argv =
     (if v_type v \<noteq> VEH_TRAIN then Inl AssertionFailed
      else if argv = [] then Inl AssertionFailed
      else
        (case GetArgumentInteger env (argv ! 0) of
           None \<Rightarrow> Inr (0, [])
         | Some min_w \<Rightarrow>
             (case (if length argv \<ge> 2 then GetArgumentInteger env (argv ! 1) else Some min_w) of
                None \<Rightarrow> Inr (0, [])
              | Some max_w \<Rightarrow>
                  if length argv \<ge> 2 \<and> max_w < min_w then Inr (0, [])
                  else
                    (case TRAIN_SELL_WAGON_loop 0 min_w max_w (Train_chain v) (replicate 100 0) 0 of
                       Inl e \<Rightarrow> Inl e
                     | Inr (to_be_sold, num_to_sell) \<Rightarrow>
                         Inr (1, map (\<lambda>i. DoCommandP (tile v) (int (to_be_sold ! i)) 0
                                            (GetCmdSellVeh VEH_TRAIN))
                                   [0..<num_to_sell])))))"

definition DoVehicleCommand ::
  "env \<Rightarrow> Vehicle \<Rightarrow> VehicleCommand \<Rightarrow> string list \<Rightarrow> error + (int \<times> event list)" where
  "DoVehicleCommand env v command argv =
     (case command of
        VEHICLE_COUNT \<Rightarrow> Inr (1, [])
      | VEHICLE_OPEN \<Rightarrow> Inr (1, [ShowVehicleViewWindow (v_index v)])
      | VEHICLE_INTERVAL \<Rightarrow>
          (if argv = [] then Inl AssertionFailed
           else
             (case GetArgumentSignedInteger env (argv ! 0) of
                None \<Rightarrow> Inr (0, [])
              | Some n \<Rightarrow>
                  (let new_interval = GetServiceIntervalClamped env (sint n) (v_owner v) in
                   if new_interval = service_interval v then Inr (0, [])
                   else Inr (1, [DoCommandP (tile v) (int (v_index v)) new_interval
                                   CMD_CHANGE_SERVICE_INT]))))
      | VEHICLE_CENTER \<Rightarrow> Inr (1, [ScrollMainWindowTo (x_pos v) (y_pos v)])
      | TRAIN_WAGON_INFO \<Rightarrow>
          (if v_type v \<noteq> VEH_TRAIN then Inl AssertionFailed
           else Inr (1, IConsolePrintF CC_DEFAULT ''Train #%4d wagons'' [unitnumber v]
                        # map (\<lambda>w. IConsolePrintF CC_DEFAULT
                                     ''%2d,  Cargo capacity: %d (%s),  Max speed: %d km/h %s'' [])
                            (Train_chain v)))
      | VEHICLE_INFO \<Rightarrow>
          Inr (1,
            [IConsolePrintF CC_DEFAULT ''#%4d, Location: [%d, %d, %d]%s%s%s%s'' [],
             IConsolePrintF CC_DEFAULT ''      Age: %d/%d years'' []]
            @ (if v_type v = VEH_TRAIN then
                 [IConsolePrintF CC_DEFAULT ''      Speed: %d/%d km/h, Orders: %d'' [],
                  IConsolePrintF CC_DEFAULT
                    ''      Length: %d tiles, Power: %d hp,  Weight: %d t'' []]
               else [IConsolePrintF CC_DEFAULT ''      Speed: %d/%d km/h, Orders: %d'' []])
            @ [IConsolePrintF CC_DEFAULT
                 ''      Service interval: %d days/%%, Breakdowns: %d (reliability %d%%)'' []])
      | VEHICLE_SKIP_ORDER \<Rightarrow>
          (let num_orders =
             (if argv \<noteq> [] then
                if (case argv ! 0 of [] \<Rightarrow> False | c # cs \<Rightarrow> tolower c = CHR ''r'') then
                  sint (InteractiveRandom env)
                else (case GetArgumentSignedInteger env (argv ! 0) of
                        None \<Rightarrow> 1 | Some n \<Rightarrow> sint n)
              else 1)
           in DoVehicleCommand_skip v command num_orders)
      | VEHICLE_LEAVE_STATION \<Rightarrow> DoVehicleCommand_skip v command 1
      | TRAIN_IGNORE \<Rightarrow>
          Inr (1, [DoCommandP (tile v) (int (v_index v)) 0 CMD_FORCE_TRAIN_PROCEED])
      | VEHICLE_TURN \<Rightarrow>
          (case v_type v of
             VEH_TRAIN \<Rightarrow>
               Inr (1, [DoCommandP (tile v) (int (v_index v)) 0 CMD_REVERSE_TRAIN_DIRECTION])
           | VEH_ROAD \<Rightarrow> Inr (1, [DoCommandP (tile v) (int (v_index v)) 0 CMD_TURN_ROADVEH])
           | _ \<Rightarrow> Inl NotReached)
      | VEHICLE_STOP \<Rightarrow>
          (if vs_stopped v then Inr (0, [])
           else Inr (1, [DoCommandP (tile v) (int (v_index v)) 0 CMD_START_STOP_VEHICLE]))
      | VEHICLE_START \<Rightarrow>
          (if \<not> vs_stopped v then Inr (0, [])
           else Inr (1, [DoCommandP (tile v) (int (v_index v)) 0 CMD_START_STOP_VEHICLE]))
      | VEHICLE_DEPOT \<Rightarrow> DoVehicleCommand_depot env v command
      | VEHICLE_SERVICE \<Rightarrow> DoVehicleCommand_depot env v command
      | VEHICLE_UNDEPOT \<Rightarrow> DoVehicleCommand_depot env v command
      | VEHICLE_UNSERVICE \<Rightarrow> DoVehicleCommand_depot env v command
      | VEHICLE_CLONE \<Rightarrow>
          (let num_clones =
             (if argv \<noteq> [] then
                (case GetArgumentInteger env (argv ! 0) of None \<Rightarrow> 1 | Some n \<Rightarrow> n)
              else 1)
           in Inr (1, replicate (unat num_clones)
                        (DoCommandP (tile v) (int (v_index v)) 0 CMD_CLONE_VEHICLE)))
      | VEHICLE_CLONE_SHARED \<Rightarrow>
          (let num_clones =
             (if argv \<noteq> [] then
                (case GetArgumentInteger env (argv ! 0) of None \<Rightarrow> 1 | Some n \<Rightarrow> n)
              else 1)
           in Inr (1, replicate (unat num_clones)
                        (DoCommandP (tile v) (int (v_index v)) 1 CMD_CLONE_VEHICLE)))
      | TRAIN_SELL_WAGON \<Rightarrow> DoVehicleCommand_wsell env v argv
      | VEHICLE_SELL \<Rightarrow>
          Inr (1, [DoCommandP (tile v) (int (v_index v)) (if v_type v = VEH_TRAIN then 1 else 0)
                     (GetCmdSellVeh (v_type v))])
      | VEHICLE_COMMAND_ALIAS \<Rightarrow> Inl NotReached
      | VEHICLE_INVALID_COMMAND \<Rightarrow> Inl NotReached)"

subsection \<open>The dispatchers\<close>

text \<open>
  A dispatcher returns \<open>handled\<close>, the events before the final line, and the numbers
  of the final line \<^verbatim>\<open>"Number of ... matched: %d, affected: %d"\<close> when it is reached.
  The entities are given in the order of the iteration, as they are when the loop
  starts. Of the help text that \<^verbatim>\<open>ConCommandsHelp\<close> prints for an invocation without
  arguments the model keeps the first line.
\<close>

record ConResult =
  handled :: bool
  effects :: "event list"
  report :: "(int \<times> int) option"

definition ConCommandsHelp :: "string \<Rightarrow> event list" where
  "ConCommandsHelp argv0 =
     [IConsoleHelp ''Invoke command on specified %s(s).'']"

fun ConTown_loop ::
  "env \<Rightarrow> MatchInfo \<Rightarrow> TownCommand \<Rightarrow> string list \<Rightarrow> Town list \<Rightarrow> int \<Rightarrow> int \<Rightarrow> event list
     \<Rightarrow> error + (int \<times> int \<times> event list)" where
  "ConTown_loop env m cmd_id argv [] matched affected out = Inr (matched, affected, out)"
| "ConTown_loop env m cmd_id argv (t # ts) matched affected out =
     (case TownMatches env t m of
        Inl e \<Rightarrow> Inl e
      | Inr False \<Rightarrow> ConTown_loop env m cmd_id argv ts matched affected out
      | Inr True \<Rightarrow>
          (case DoTownCommand env t cmd_id argv of
             Inl e \<Rightarrow> Inl e
           | Inr (r, ev) \<Rightarrow>
               ConTown_loop env m cmd_id argv ts (matched + 1) (affected + r) (out @ ev)))"

definition ConTown :: "env \<Rightarrow> string list \<Rightarrow> Town list \<Rightarrow> error + ConResult" where
  "ConTown env argv towns =
     (let kind_mask = FOR_TOWN in
      if length argv = 0 then
        Inr \<lparr>handled = True,
             effects = ConCommandsHelp ''town''
               @ [IConsoleHelp ''You can also use:'', IConsoleHelp '' name of town or ID of town''],
             report = None\<rparr>
      else if length argv < 3 then Inr \<lparr>handled = False, effects = [], report = None\<rparr>
      else
        (case CheckMatch_argv env argv kind_mask of
           Inl e \<Rightarrow> Inl e
         | Inr (None, argv', out) \<Rightarrow> Inr \<lparr>handled = True, effects = out, report = None\<rparr>
         | Inr (Some m, argv', out) \<Rightarrow>
             if length argv' = 0 then Inr \<lparr>handled = False, effects = out, report = None\<rparr>
             else
               (case GetTownCommand (argv' ! 0) of
                  Inl e \<Rightarrow> Inl e
                | Inr cmd \<Rightarrow>
                    if TownCommand_val (id_s cmd) = 0 then
                      Inr \<lparr>handled = False,
                           effects = out @ [IConsoleError ''You have specified invalid command.''],
                           report = None\<rparr>
                    else if int (length argv') < 1 + params_s cmd then
                      Inr \<lparr>handled = True,
                           effects = out @ [IConsoleError ''This command requires additional parameter(s).''],
                           report = None\<rparr>
                    else
                      (let out1 = out @
                         (if \<not> game_mode_editor env \<and> req_s cmd AND IN_EDITOR \<noteq> 0 then
                            [IConsoleError ''This command can be used only in scenario editor'']
                          else [])
                       in
                       if req_s cmd AND IS_ALIAS \<noteq> 0 then Inl AssertionFailed
                       else
                         (case ConTown_loop env m (id_s cmd) (tl argv') towns 0 0 out1 of
                            Inl e \<Rightarrow> Inl e
                          | Inr (matched, affected, out2) \<Rightarrow>
                              Inr \<lparr>handled = True, effects = out2,
                                   report = Some (matched, affected)\<rparr>)))))"

fun ConIndustry_loop ::
  "env \<Rightarrow> MatchInfo \<Rightarrow> IndustryCommand \<Rightarrow> string list \<Rightarrow> Industry list \<Rightarrow> int \<Rightarrow> int
     \<Rightarrow> event list \<Rightarrow> error + (int \<times> int \<times> event list)" where
  "ConIndustry_loop env m cmd_id argv [] matched affected out = Inr (matched, affected, out)"
| "ConIndustry_loop env m cmd_id argv (i # is) matched affected out =
     (case IndustryMatches env i m of
        Inl e \<Rightarrow> Inl e
      | Inr False \<Rightarrow> ConIndustry_loop env m cmd_id argv is matched affected out
      | Inr True \<Rightarrow>
          (case DoIndustryCommand env i cmd_id argv of
             Inl e \<Rightarrow> Inl e
           | Inr (r, ev) \<Rightarrow> ConIndustry_loop env m cmd_id argv is (matched + 1) r (out @ ev)))"

definition ConIndustry :: "env \<Rightarrow> string list \<Rightarrow> Industry list \<Rightarrow> error + ConResult" where
  "ConIndustry env argv industries =
     (let kind_mask = FOR_INDUSTRY in
      if length argv = 0 then
        Inr \<lparr>handled = True,
             effects = ConCommandsHelp ''industry''
               @ [IConsoleHelp ''You can also use:'',
                  IConsoleHelp '' name of town, to which the industry belongs, or ID of industry''],
             report = None\<rparr>
      else if length argv < 3 then Inr \<lparr>handled = False, effects = [], report = None\<rparr>
      else
        (case CheckMatch_argv env argv kind_mask of
           Inl e \<Rightarrow> Inl e
         | Inr (None, argv', out) \<Rightarrow> Inr \<lparr>handled = True, effects = out, report = None\<rparr>
         | Inr (Some m, argv', out) \<Rightarrow>
             if length argv' = 0 then Inr \<lparr>handled = False, effects = out, report = None\<rparr>
             else
               (case GetIndustryCommand (argv' ! 0) of
                  Inl e \<Rightarrow> Inl e
                | Inr cmd \<Rightarrow>
                    if IndustryCommand_val (id_s cmd) = 0 then
                      Inr \<lparr>handled = False,
                           effects = out @ [IConsoleError ''You have specified invalid command.''],
                           report = None\<rparr>
                    else if int (length argv') < 1 + params_s cmd then
                      Inr \<lparr>handled = True,
                           effects = out @ [IConsoleError ''This command requires additional parameter(s).''],
                           report = None\<rparr>
                    else
                      (let out1 = out @
                         (if \<not> game_mode_editor env \<and> req_s cmd AND IN_EDITOR \<noteq> 0 then
                            [IConsoleError ''This command can be used only in scenario editor'']
                          else [])
                       in
                       if req_s cmd AND IS_ALIAS \<noteq> 0 then Inl AssertionFailed
                       else
                         (case ConIndustry_loop env m (id_s cmd) (tl argv') industries 0 0 out1 of
                            Inl e \<Rightarrow> Inl e
                          | Inr (matched, affected, out2) \<Rightarrow>
                              Inr \<lparr>handled = True, effects = out2,
                                   report = Some (matched, affected)\<rparr>)))))"

text \<open>
  The vehicle dispatcher first turns generic criteria that name a group into group
  criteria, walking the chain from its head. The list of vehicles comes from
  \<^verbatim>\<open>GenerateVehicleSortList(&sort_list, vli)\<close> with a default-constructed \<open>vli\<close>;
  \<open>list_type\<close> and \<open>object_id\<close> are computed and not passed on.
\<close>

datatype VehicleListType = VL_STANDARD | VL_GROUP_LIST

fun ConVehicleCommand_groups ::
  "env \<Rightarrow> VehicleListType \<Rightarrow> nat \<Rightarrow> MatchInfo \<Rightarrow> MatchInfo \<times> VehicleListType \<times> nat" where
  "ConVehicleCommand_groups env list_type object_id (MatchInfo t st ident nx) =
     (let (t', list_type', object_id') =
        (if t = MATCH_GENERIC then
           (case GetGroupByName env ident of
              None \<Rightarrow> (t, list_type, object_id)
            | Some g \<Rightarrow>
                if list_type = VL_STANDARD then (MATCH_ALL, VL_GROUP_LIST, g_index g)
                else (MATCH_GROUP, list_type, object_id))
         else (t, list_type, object_id))
      in
      case nx of
        None \<Rightarrow> (MatchInfo t' st ident None, list_type', object_id')
      | Some n \<Rightarrow>
          (let (n', list_type'', object_id'') = ConVehicleCommand_groups env list_type' object_id' n
           in (MatchInfo t' st ident (Some n'), list_type'', object_id'')))"

definition ConVehicleCommand_requirements :: "int \<Rightarrow> Vehicle \<Rightarrow> error + bool" where
  "ConVehicleCommand_requirements req v =
     (if req AND NOT_CRASHED \<noteq> 0 \<and> vs_crashed v then Inr False
      else if req AND STOPPED \<noteq> 0 \<and> \<not> vs_stopped v then Inr False
      else if req AND IN_DEPOT \<noteq> 0 \<and> \<not> IsInDepot v then Inr False
      else
        (case v_type v of
           VEH_TRAIN \<Rightarrow> Inr (req AND FOR_TRAIN \<noteq> 0)
         | VEH_ROAD \<Rightarrow> Inr (req AND FOR_ROAD \<noteq> 0)
         | VEH_SHIP \<Rightarrow> Inr (req AND FOR_SHIP \<noteq> 0)
         | VEH_AIRCRAFT \<Rightarrow> Inr (req AND FOR_AIRCRAFT \<noteq> 0)
         | _ \<Rightarrow> Inl NotReached))"

fun ConVehicleCommand_loop ::
  "env \<Rightarrow> MatchInfo \<Rightarrow> VehicleCommand StringInfo \<Rightarrow> string list \<Rightarrow> Vehicle list \<Rightarrow> int \<Rightarrow> int
     \<Rightarrow> event list \<Rightarrow> error + (int \<times> int \<times> event list)" where
  "ConVehicleCommand_loop env m cmd argv [] matched affected out = Inr (matched, affected, out)"
| "ConVehicleCommand_loop env m cmd argv (v # vs) matched affected out =
     (case VehicleMatches env v m of
        Inl e \<Rightarrow> Inl e
      | Inr False \<Rightarrow> ConVehicleCommand_loop env m cmd argv vs matched affected out
      | Inr True \<Rightarrow>
          (case ConVehicleCommand_requirements (req_s cmd) v of
             Inl e \<Rightarrow> Inl e
           | Inr False \<Rightarrow> ConVehicleCommand_loop env m cmd argv vs (matched + 1) affected out
           | Inr True \<Rightarrow>
               (case DoVehicleCommand env v (id_s cmd) argv of
                  Inl e \<Rightarrow> Inl e
                | Inr (r, ev) \<Rightarrow>
                    ConVehicleCommand_loop env m cmd argv vs (matched + 1) r (out @ ev))))"

definition ConVehicleCommand ::
  "env \<Rightarrow> string list \<Rightarrow> VehicleType \<Rightarrow> string \<Rightarrow> Vehicle list \<Rightarrow> error + ConResult" where
  "ConVehicleCommand env argv vtype argv0 sort_list =
     (case (case vtype of
              VEH_TRAIN \<Rightarrow> Some (FOR_TRAIN, ''train'')
            | VEH_ROAD \<Rightarrow> Some (FOR_ROAD, ''road vehicle'')
            | VEH_SHIP \<Rightarrow> Some (FOR_SHIP, ''ship'')
            | VEH_AIRCRAFT \<Rightarrow> Some (FOR_AIRCRAFT, ''aircraft'')
            | VEH_INVALID \<Rightarrow> Some (FOR_VEHICLE, ''vehicle'')
            | _ \<Rightarrow> None) of
        None \<Rightarrow> Inl NotReached
      | Some (kind_mask, vehicle_name) \<Rightarrow>
          if length argv = 0 then
            Inr \<lparr>handled = True,
                 effects = ConCommandsHelp argv0
                   @ [IConsoleHelp ''You can also use:'',
                      IConsoleHelp '' name of group for all %ss from specified group. Can accept unique prefix of group name'',
                      IConsoleHelp '' %s number for specific %s''],
                 report = None\<rparr>
          else if \<not> Company_IsValidID env (local_company env) then
            Inr \<lparr>handled = True,
                 effects = [IConsoleError ''You have to own a company to make use of this command.''],
                 report = None\<rparr>
          else if length argv < 3 then Inr \<lparr>handled = False, effects = [], report = None\<rparr>
          else
            (case CheckMatch_argv env argv kind_mask of
               Inl e \<Rightarrow> Inl e
             | Inr (None, argv', out) \<Rightarrow> Inr \<lparr>handled = True, effects = out, report = None\<rparr>
             | Inr (Some m, argv', out) \<Rightarrow>
                 if length argv' = 0 then Inr \<lparr>handled = False, effects = out, report = None\<rparr>
                 else
                   (case GetVehicleCommand (argv' ! 0) of
                      Inl e \<Rightarrow> Inl e
                    | Inr cmd \<Rightarrow>
                        if VehicleCommand_val (id_s cmd) = 0 then
                          Inr \<lparr>handled = False,
                               effects = out @ [IConsoleError ''You have specified invalid command.''],
                               report = None\<rparr>
                        else if int (length argv') < 1 + params_s cmd then
                          Inr \<lparr>handled = True,
                               effects = out @ [IConsoleError ''This command requires additional parameter(s).''],
                               report = None\<rparr>
                        else if req_s cmd AND kind_mask = 0 then
                          Inr \<lparr>handled = True,
                               effects = out @ [IConsolePrintF CC_ERROR
                                 '' ERROR: The command you have specified cannot be applied to %s.'' []],
                               report = None\<rparr>
                        else if req_s cmd AND IS_ALIAS \<noteq> 0 then Inl AssertionFailed
                        else
                          (let (m', list_type, object_id) =
                             ConVehicleCommand_groups env VL_STANDARD 0 m
                           in
                           case ConVehicleCommand_loop env m' cmd (tl argv') sort_list 0 0 out of
                             Inl e \<Rightarrow> Inl e
                           | Inr (matched, affected, out2) \<Rightarrow>
                               Inr \<lparr>handled = True, effects = out2,
                                    report = Some (matched, affected)\<rparr>))))"

definition ConTrain :: "env \<Rightarrow> string list \<Rightarrow> Vehicle list \<Rightarrow> error + ConResult" where
  "ConTrain env argv sort_list = ConVehicleCommand env argv VEH_TRAIN ''train'' sort_list"

definition ConRoad :: "env \<Rightarrow> string list \<Rightarrow> Vehicle list \<Rightarrow> error + ConResult" where
  "ConRoad env argv sort_list = ConVehicleCommand env argv VEH_ROAD ''road'' sort_list"

definition ConShip :: "env \<Rightarrow> string list \<Rightarrow> Vehicle list \<Rightarrow> error + ConResult" where
  "ConShip env argv sort_list = ConVehicleCommand env argv VEH_SHIP ''ship'' sort_list"

definition ConAircraft :: "env \<Rightarrow> string list \<Rightarrow> Vehicle list \<Rightarrow> error + ConResult" where
  "ConAircraft env argv sort_list = ConVehicleCommand env argv VEH_AIRCRAFT ''aircraft'' sort_list"

definition ConVehicle :: "env \<Rightarrow> string list \<Rightarrow> Vehicle list \<Rightarrow> error + ConResult" where
  "ConVehicle env argv sort_list = ConVehicleCommand env argv VEH_INVALID ''vehicle'' sort_list"

subsection \<open>Example inputs\<close>

text \<open>
  An argument parser for the examples: it reads the unsigned decimal number at the
  start of the argument and fails when there is none.
\<close>

definition decimal_argument :: "string \<Rightarrow> 32 word option" where
  "decimal_argument arg =
     (case takeWhile isdigit arg of
        [] \<Rightarrow> None
      | d # ds \<Rightarrow> Some (word_of_int (atoi_digits 0 (d # ds))))"

definition example_env :: env where
  "example_env =
     \<lparr>GetArgumentInteger = decimal_argument,
      GetArgumentSignedInteger = decimal_argument,
      strtoull = (\<lambda>arg. (word_of_int (atoi_digits 0 (takeWhile isdigit arg)),
                          length (takeWhile isdigit arg))),
      local_company = 0,
      Company_IsValidID = (\<lambda>c. c = 0),
      companies = [0],
      INVALID_COMPANY = 255,
      game_mode_editor = False,
      groups = [],
      ICON_MAX_STREAMSIZE = 2048,
      DEPOT_SERVICE = 2 ^ 28,
      GetServiceIntervalClamped = (\<lambda>interval company. max 5 (min 800 interval)),
      InteractiveRandom = 0,
      uninitialized_buf = []\<rparr>"

definition example_vehicle :: "VehicleType \<Rightarrow> nat \<Rightarrow> Part list \<Rightarrow> Vehicle" where
  "example_vehicle vt n parts =
     \<lparr>v_type = vt, v_index = n, v_name = ''Vehicle'', v_owner = 0, unitnumber = int n, tile = 0, x_pos = 0, y_pos = 0,
      vs_stopped = True, vs_crashed = False, breakdown_ctr = 0, IsInDepot = True,
      service_interval = 150, cur_speed = 0, GetNumOrders = 2, age = 400,
      breakdowns_since_last_service = 0, cached_max_speed = 100, cached_total_length = 24,
      profit_this_year = 0, profit_last_year = 0, group_id = 65535,
      current_order_type = OT_OTHER, current_order_index = 0, current_order_halt = False,
      IsArticulatedPart = False, Next = parts\<rparr>"

definition example_town :: "nat \<Rightarrow> string \<Rightarrow> Town" where
  "example_town n name =
     \<lparr>t_index = n, TownName = name, xy = 0, population = 1000, num_houses = 40,
      ratings = (\<lambda>c. 0), have_ratings = 0, noise_reached = 0, MaxTownNoise = 3,
      fund_buildings_months = 0, road_build_months = 0, exclusive_counter = 0,
      exclusivity = 255, statues = 0, unwanted = (\<lambda>c. 0), larger_town = False\<rparr>"

definition example_industry :: "nat \<Rightarrow> Town \<Rightarrow> Industry" where
  "example_industry n t =
     \<lparr>i_index = n, town = Some t, location_tile = 0, last_month_production = (0, 0),
      last_month_transported = (0, 0), this_month_production = (0, 0),
      this_month_transported = (0, 0), produced_cargo_valid = (False, False),
      accepts_cargo_valid = (False, False, False)\<rparr>"

subsection \<open>Prefix hits\<close>

text \<open>
  For stating what the resolver does with prefixes: the real descriptors that the
  entries with a matching prefix denote, in table order.
\<close>

fun hits :: "('a \<Rightarrow> int) \<Rightarrow> string \<Rightarrow> 'a StringInfo list \<Rightarrow> 'a StringInfo list" where
  "hits val ident [] = []"
| "hits val ident (e # es) =
     (if str_isprefix ident (name_s e) then
        (case skip_alias val (e # es) of
           None \<Rightarrow> hits val ident es
         | Some r \<Rightarrow> r # hits val ident es)
      else hits val ident es)"

text \<open>
  What the resolver expects of a table: it ends in a real entry (every alias is listed
  before its command), the invalid id is zero and no id of the table is, and two entries
  with the same real id are the same entry.
\<close>

definition table_ok :: "('a \<Rightarrow> int) \<Rightarrow> 'a StringInfo \<Rightarrow> 'a StringInfo list \<Rightarrow> bool" where
  "table_ok val invalid_value string_array \<longleftrightarrow>
     string_array \<noteq> []
     \<and> val (id_s (last string_array)) \<noteq> LIST_ALIAS
     \<and> val (id_s invalid_value) = 0
     \<and> (\<forall>e\<in>set string_array. val (id_s e) \<noteq> 0)
     \<and> (\<forall>x\<in>set string_array. \<forall>y\<in>set string_array.
           val (id_s x) \<noteq> LIST_ALIAS \<and> id_s x = id_s y \<longrightarrow> x = y)"

section \<open>Properties\<close>

lemmas req_defs = FOR_TRAIN_def FOR_ROAD_def FOR_SHIP_def FOR_AIRCRAFT_def NOT_CRASHED_def
  IN_DEPOT_def STOPPED_def IS_ALIAS_def FOR_VEHICLE_def FOR_TOWN_def FOR_INDUSTRY_def
  USE_PRINTF_def IN_EDITOR_def

subsection \<open>The resolver\<close>


lemma skip_alias_None_iff:
  "skip_alias val xs = None \<longleftrightarrow> (\<forall>x\<in>set xs. val (id_s x) = LIST_ALIAS)"
  by (induction xs) auto

lemma skip_alias_Some_real:
  "skip_alias val xs = Some r \<Longrightarrow> val (id_s r) \<noteq> LIST_ALIAS \<and> r \<in> set xs"
  by (induction xs) (auto split: if_splits)

lemma skip_alias_last:
  "xs \<noteq> [] \<Longrightarrow> val (id_s (last xs)) \<noteq> LIST_ALIAS \<Longrightarrow> \<exists>r. skip_alias val xs = Some r"
  using skip_alias_None_iff[of val xs] by (cases "skip_alias val xs") auto

lemma loop_exact:
  assumes "\<forall>x\<in>set pre. stricmp ident (name_s x) \<noteq> 0"
    and "stricmp ident (name_s e) = 0"
    and "val (id_s (last (e # post))) \<noteq> LIST_ALIAS"
    and "skip_alias val (e # post) = Some r"
  shows "GetStringInfo_loop val ident iv (pre @ e # post) cmd u = Inr r"
  using assms
proof (induction pre arbitrary: cmd u)
  case Nil
  then show ?case by simp
next
  case (Cons x pre)
  have "last (x # pre @ e # post) = last (e # post)" by simp
  then obtain q where q: "skip_alias val (x # pre @ e # post) = Some q"
    using skip_alias_last[of "x # pre @ e # post" val] Cons.prems(3) by fastforce
  have nx: "stricmp ident (name_s x) \<noteq> 0" using Cons.prems(1) by simp
  have ih: "\<And>c u'. GetStringInfo_loop val ident iv (pre @ e # post) c u' = Inr r"
    using Cons.IH Cons.prems by simp
  show ?case
    using q nx ih by (simp del: skip_alias.simps)
qed

text \<open>
  Claim C8. If the query equals the name of a table entry without regard to case,
  \<open>GetStringInfo\<close> returns the real (non-alias) descriptor that the entry denotes, the
  first non-alias entry from that entry on, whatever the query is a prefix of. The
  entry is the first one of that name; the table ends in a real entry, as every alias
  is listed before its command.
\<close>

theorem GetStringInfo_exact_match:
  assumes last_real: "val (id_s (last string_array)) \<noteq> LIST_ALIAS"
    and i: "i < length string_array"
    and eq: "stricmp ident (name_s (string_array ! i)) = 0"
    and first: "\<forall>j<i. stricmp ident (name_s (string_array ! j)) \<noteq> 0"
  shows "\<exists>real. skip_alias val (drop i string_array) = Some real
           \<and> val (id_s real) \<noteq> LIST_ALIAS
           \<and> GetStringInfo val ident invalid_value string_array = Inr real"
proof -
  let ?pre = "take i string_array" and ?e = "string_array ! i"
  let ?post = "drop (Suc i) string_array"
  have split: "string_array = ?pre @ ?e # ?post" using i by (simp add: id_take_nth_drop)
  have dr: "drop i string_array = ?e # ?post" using i by (simp add: Cons_nth_drop_Suc)
  have "last (?e # ?post) = last string_array" using i dr by (metis last_drop)
  then have lr: "val (id_s (last (?e # ?post))) \<noteq> LIST_ALIAS" using last_real by simp
  then obtain r where r: "skip_alias val (?e # ?post) = Some r"
    using skip_alias_last[of "?e # ?post" val] by blast
  have pre: "\<forall>x\<in>set ?pre. stricmp ident (name_s x) \<noteq> 0"
  proof
    fix x assume "x \<in> set ?pre"
    then obtain j where "j < length ?pre" "x = ?pre ! j" by (metis in_set_conv_nth)
    then show "stricmp ident (name_s x) \<noteq> 0" using first i by simp
  qed
  have "GetStringInfo_loop val ident invalid_value (?pre @ ?e # ?post) invalid_value True = Inr r"
    by (rule loop_exact[OF pre eq lr r])
  then have "GetStringInfo val ident invalid_value string_array = Inr r"
    using split by (simp add: GetStringInfo_def)
  then show ?thesis using r dr skip_alias_Some_real[OF r] by simp
qed

theorem GetStringInfo_exact_match_witness:
  "GetVehicleCommand ''Clone'' = Inr (veh_commands ! 2)
   \<and> str_isprefix ''Clone'' (name_s (veh_commands ! 3))
   \<and> map_sum id id_s (GetVehicleCommand ''CENTRE'') = Inr VEHICLE_CENTER"
proof -
  have a: "VehicleCommand_val (id_s (last veh_commands)) \<noteq> LIST_ALIAS"
    by code_simp
  have b0: "stricmp ''Clone'' (name_s (veh_commands ! 0)) \<noteq> 0" by code_simp
  have b1: "stricmp ''Clone'' (name_s (veh_commands ! 1)) \<noteq> 0" by code_simp
  have b: "\<forall>j<2. stricmp ''Clone'' (name_s (veh_commands ! j)) \<noteq> 0"
    using b0 b1 by (auto simp: less_2_cases_iff)
  have c: "stricmp ''Clone'' (name_s (veh_commands ! 2)) = 0" by code_simp
  have d: "stricmp ''CENTRE'' (name_s (veh_commands ! 0)) = 0" by code_simp
  have l2: "2 < length veh_commands" and l0: "0 < length veh_commands" by code_simp+
  have s2: "skip_alias VehicleCommand_val (drop 2 veh_commands) = Some (veh_commands ! 2)"
    by code_simp
  have s0: "map_option id_s (skip_alias VehicleCommand_val (drop 0 veh_commands)) = Some VEHICLE_CENTER"
    by code_simp
  have p: "str_isprefix ''Clone'' (name_s (veh_commands ! 3))" by code_simp
  from GetStringInfo_exact_match[of VehicleCommand_val veh_commands 2 "''Clone''" INVALID_COMMAND_VEHICLE, OF a l2 c b]
  have r1: "GetVehicleCommand ''Clone'' = Inr (veh_commands ! 2)"
    using s2 by (auto simp: GetVehicleCommand_def)
  from GetStringInfo_exact_match[of VehicleCommand_val veh_commands 0 "''CENTRE''" INVALID_COMMAND_VEHICLE, OF a l0 d]
  have r2: "map_sum id id_s (GetVehicleCommand ''CENTRE'') = Inr VEHICLE_CENTER"
    using s0 by (auto simp: GetVehicleCommand_def)
  show ?thesis using r1 r2 p by simp
qed


lemma hits_Cons_hit:
  "str_isprefix ident (name_s e) \<Longrightarrow> skip_alias val (e # es) = Some r \<Longrightarrow>
     hits val ident (e # es) = r # hits val ident es"
  by (simp del: skip_alias.simps)

lemma hits_Cons_miss:
  "\<not> str_isprefix ident (name_s e) \<Longrightarrow> hits val ident (e # es) = hits val ident es"
  by simp

lemma hits_iff:
  assumes "xs \<noteq> [] \<longrightarrow> val (id_s (last xs)) \<noteq> LIST_ALIAS"
  shows "r \<in> set (hits val ident xs) \<longleftrightarrow>
     (\<exists>j<length xs. str_isprefix ident (name_s (xs ! j)) \<and> skip_alias val (drop j xs) = Some r)"
  using assms
proof (induction xs)
  case Nil
  then show ?case by simp
next
  case (Cons e es)
  obtain q where q: "skip_alias val (e # es) = Some q"
    using skip_alias_last[of "e # es" val] Cons.prems by blast
  have tl: "es \<noteq> [] \<longrightarrow> val (id_s (last es)) \<noteq> LIST_ALIAS" using Cons.prems by (cases es) auto
  have ih: "r \<in> set (hits val ident es) \<longleftrightarrow>
     (\<exists>j<length es. str_isprefix ident (name_s (es ! j)) \<and> skip_alias val (drop j es) = Some r)"
    using Cons.IH tl by blast
  have ex: "(\<exists>j<length (e # es). str_isprefix ident (name_s ((e # es) ! j)) \<and> skip_alias val (drop j (e # es)) = Some r)
      \<longleftrightarrow> (str_isprefix ident (name_s e) \<and> skip_alias val (e # es) = Some r)
          \<or> (\<exists>j<length es. str_isprefix ident (name_s (es ! j)) \<and> skip_alias val (drop j es) = Some r)"
    by (simp add: Ex_less_Suc2 del: skip_alias.simps)
  show ?case
  proof (cases "str_isprefix ident (name_s e)")
    case True
    have "r \<in> set (hits val ident (e # es)) \<longleftrightarrow> q = r \<or> r \<in> set (hits val ident es)"
      unfolding hits_Cons_hit[OF True q] by auto
    then show ?thesis unfolding ex ih[symmetric] using True q by auto
  next
    case False
    show ?thesis unfolding ex ih[symmetric] hits_Cons_miss[OF False] using False by blast
  qed
qed

text \<open>Loop lemmas. The table has no exact match and ends in a real entry.\<close>

lemma loop_step:
  assumes "stricmp ident (name_s e) \<noteq> 0" and "skip_alias val (e # es) = Some r"
  shows "GetStringInfo_loop val ident iv (e # es) cmd u =
           (if str_isprefix ident (name_s e) \<and> id_s r \<noteq> id_s cmd
            then GetStringInfo_loop val ident iv es r (if val (id_s cmd) \<noteq> 0 then False else u)
            else GetStringInfo_loop val ident iv es cmd u)"
  using assms by (simp del: skip_alias.simps)

lemma loop_not_unique:
  assumes "\<forall>x\<in>set xs. stricmp ident (name_s x) \<noteq> 0"
    and "xs \<noteq> [] \<longrightarrow> val (id_s (last xs)) \<noteq> LIST_ALIAS"
  shows "GetStringInfo_loop val ident iv xs cmd False = Inr iv"
  using assms
proof (induction xs arbitrary: cmd)
  case Nil
  then show ?case by simp
next
  case (Cons e es)
  obtain r where r: "skip_alias val (e # es) = Some r"
    using skip_alias_last[of "e # es" val] Cons.prems(2) by blast
  have ne: "stricmp ident (name_s e) \<noteq> 0" using Cons.prems(1) by simp
  have ih: "\<And>c. GetStringInfo_loop val ident iv es c False = Inr iv"
    using Cons.IH Cons.prems by (cases es) auto
  show ?case unfolding loop_step[OF ne r] using ih by simp
qed

lemma loop_other_hit:
  assumes "\<forall>x\<in>set xs. stricmp ident (name_s x) \<noteq> 0"
    and "xs \<noteq> [] \<longrightarrow> val (id_s (last xs)) \<noteq> LIST_ALIAS"
    and "val (id_s cmd) \<noteq> 0"
    and "q \<in> set (hits val ident xs)" and "id_s q \<noteq> id_s cmd"
  shows "GetStringInfo_loop val ident iv xs cmd u = Inr iv"
  using assms
proof (induction xs arbitrary: u)
  case Nil
  then show ?case by simp
next
  case (Cons e es)
  obtain r where r: "skip_alias val (e # es) = Some r"
    using skip_alias_last[of "e # es" val] Cons.prems(2) by blast
  have ne: "stricmp ident (name_s e) \<noteq> 0" using Cons.prems(1) by simp
  have tl1: "\<forall>x\<in>set es. stricmp ident (name_s x) \<noteq> 0" using Cons.prems(1) by simp
  have tl2: "es \<noteq> [] \<longrightarrow> val (id_s (last es)) \<noteq> LIST_ALIAS" using Cons.prems(2) by (cases es) auto
  show ?case
  proof (cases "str_isprefix ident (name_s e) \<and> id_s r \<noteq> id_s cmd")
    case True
    then have "GetStringInfo_loop val ident iv (e # es) cmd u = GetStringInfo_loop val ident iv es r False"
      unfolding loop_step[OF ne r] using Cons.prems(3) by simp
    then show ?thesis using loop_not_unique[of es ident val iv r, OF tl1 tl2] by simp
  next
    case False
    then have st: "GetStringInfo_loop val ident iv (e # es) cmd u = GetStringInfo_loop val ident iv es cmd u"
      unfolding loop_step[OF ne r] by auto
    have "q \<in> set (hits val ident es)"
    proof (cases "str_isprefix ident (name_s e)")
      case True
      then have "id_s r = id_s cmd" using False by blast
      then have "q \<noteq> r" using Cons.prems(5) by auto
      then show ?thesis using Cons.prems(4) unfolding hits_Cons_hit[OF True r] by simp
    next
      case False
      then show ?thesis using Cons.prems(4) unfolding hits_Cons_miss[OF False] by simp
    qed
    then show ?thesis using st Cons.IH[of u, OF tl1 tl2 Cons.prems(3) _ Cons.prems(5)] by simp
  qed
qed

lemma loop_two_hits:
  assumes "\<forall>x\<in>set xs. stricmp ident (name_s x) \<noteq> 0"
    and "xs \<noteq> [] \<longrightarrow> val (id_s (last xs)) \<noteq> LIST_ALIAS"
    and "val (id_s iv) = 0"
    and "\<forall>x\<in>set xs. val (id_s x) \<noteq> 0"
    and "a \<in> set (hits val ident xs)" and "b \<in> set (hits val ident xs)" and "id_s a \<noteq> id_s b"
  shows "GetStringInfo_loop val ident iv xs iv True = Inr iv"
  using assms
proof (induction xs)
  case Nil
  then show ?case by simp
next
  case (Cons e es)
  obtain r where r: "skip_alias val (e # es) = Some r"
    using skip_alias_last[of "e # es" val] Cons.prems(2) by blast
  have rin: "r \<in> set (e # es)" using skip_alias_Some_real[OF r] by simp
  have rv: "val (id_s r) \<noteq> 0" using rin Cons.prems(4) by blast
  have rne: "id_s r \<noteq> id_s iv" using rv Cons.prems(3) by auto
  have ne: "stricmp ident (name_s e) \<noteq> 0" using Cons.prems(1) by simp
  have tl1: "\<forall>x\<in>set es. stricmp ident (name_s x) \<noteq> 0" using Cons.prems(1) by simp
  have tl2: "es \<noteq> [] \<longrightarrow> val (id_s (last es)) \<noteq> LIST_ALIAS" using Cons.prems(2) by (cases es) auto
  have tl4: "\<forall>x\<in>set es. val (id_s x) \<noteq> 0" using Cons.prems(4) by simp
  show ?case
  proof (cases "str_isprefix ident (name_s e)")
    case True
    then have st: "GetStringInfo_loop val ident iv (e # es) iv True = GetStringInfo_loop val ident iv es r True"
      unfolding loop_step[OF ne r] using rne Cons.prems(3) by simp
    have a: "a = r \<or> a \<in> set (hits val ident es)"
      using Cons.prems(5) unfolding hits_Cons_hit[OF True r] by simp
    have b: "b = r \<or> b \<in> set (hits val ident es)"
      using Cons.prems(6) unfolding hits_Cons_hit[OF True r] by simp
    obtain q where q: "q \<in> set (hits val ident es)" "id_s q \<noteq> id_s r"
      using a b Cons.prems(7) by metis
    show ?thesis using st loop_other_hit[of es ident val r q iv True, OF tl1 tl2 rv q] by simp
  next
    case False
    then have st: "GetStringInfo_loop val ident iv (e # es) iv True = GetStringInfo_loop val ident iv es iv True"
      unfolding loop_step[OF ne r] by simp
    have a: "a \<in> set (hits val ident es)" using Cons.prems(5) unfolding hits_Cons_miss[OF False] .
    have b: "b \<in> set (hits val ident es)" using Cons.prems(6) unfolding hits_Cons_miss[OF False] .
    show ?thesis using st Cons.IH[OF tl1 tl2 Cons.prems(3) tl4 a b Cons.prems(7)] by simp
  qed
qed

lemma loop_same_hits_from:
  assumes "\<forall>x\<in>set xs. stricmp ident (name_s x) \<noteq> 0"
    and "xs \<noteq> [] \<longrightarrow> val (id_s (last xs)) \<noteq> LIST_ALIAS"
    and "val (id_s d) \<noteq> 0"
    and "\<forall>q\<in>set (hits val ident xs). q = d"
  shows "GetStringInfo_loop val ident iv xs d True = Inr d"
  using assms
proof (induction xs)
  case Nil
  then show ?case by simp
next
  case (Cons e es)
  obtain r where r: "skip_alias val (e # es) = Some r"
    using skip_alias_last[of "e # es" val] Cons.prems(2) by blast
  have ne: "stricmp ident (name_s e) \<noteq> 0" using Cons.prems(1) by simp
  have tl1: "\<forall>x\<in>set es. stricmp ident (name_s x) \<noteq> 0" using Cons.prems(1) by simp
  have tl2: "es \<noteq> [] \<longrightarrow> val (id_s (last es)) \<noteq> LIST_ALIAS" using Cons.prems(2) by (cases es) auto
  show ?case
  proof (cases "str_isprefix ident (name_s e)")
    case True
    have rd: "r = d" and tl4: "\<forall>q\<in>set (hits val ident es). q = d"
      using Cons.prems(4) unfolding hits_Cons_hit[OF True r] by simp_all
    have "GetStringInfo_loop val ident iv (e # es) d True = GetStringInfo_loop val ident iv es d True"
      unfolding loop_step[OF ne r] using rd by simp
    then show ?thesis using Cons.IH[OF tl1 tl2 Cons.prems(3) tl4] by simp
  next
    case False
    have tl4: "\<forall>q\<in>set (hits val ident es). q = d"
      using Cons.prems(4) unfolding hits_Cons_miss[OF False] .
    have "GetStringInfo_loop val ident iv (e # es) d True = GetStringInfo_loop val ident iv es d True"
      unfolding loop_step[OF ne r] using False by simp
    then show ?thesis using Cons.IH[OF tl1 tl2 Cons.prems(3) tl4] by simp
  qed
qed

lemma loop_same_hits:
  assumes "\<forall>x\<in>set xs. stricmp ident (name_s x) \<noteq> 0"
    and "xs \<noteq> [] \<longrightarrow> val (id_s (last xs)) \<noteq> LIST_ALIAS"
    and "val (id_s iv) = 0"
    and "val (id_s d) \<noteq> 0"
    and "hits val ident xs \<noteq> []"
    and "\<forall>q\<in>set (hits val ident xs). q = d"
  shows "GetStringInfo_loop val ident iv xs iv True = Inr d"
  using assms
proof (induction xs)
  case Nil
  then show ?case by simp
next
  case (Cons e es)
  obtain r where r: "skip_alias val (e # es) = Some r"
    using skip_alias_last[of "e # es" val] Cons.prems(2) by blast
  have ne: "stricmp ident (name_s e) \<noteq> 0" using Cons.prems(1) by simp
  have tl1: "\<forall>x\<in>set es. stricmp ident (name_s x) \<noteq> 0" using Cons.prems(1) by simp
  have tl2: "es \<noteq> [] \<longrightarrow> val (id_s (last es)) \<noteq> LIST_ALIAS" using Cons.prems(2) by (cases es) auto
  have dne: "id_s d \<noteq> id_s iv" using Cons.prems(3,4) by auto
  show ?case
  proof (cases "str_isprefix ident (name_s e)")
    case True
    have rd: "r = d" and tl4: "\<forall>q\<in>set (hits val ident es). q = d"
      using Cons.prems(6) unfolding hits_Cons_hit[OF True r] by simp_all
    have "GetStringInfo_loop val ident iv (e # es) iv True = GetStringInfo_loop val ident iv es d True"
      unfolding loop_step[OF ne r] using True rd dne Cons.prems(3) by simp
    then show ?thesis using loop_same_hits_from[of es ident val d iv, OF tl1 tl2 Cons.prems(4) tl4] by simp
  next
    case False
    then have st: "GetStringInfo_loop val ident iv (e # es) iv True = GetStringInfo_loop val ident iv es iv True"
      unfolding loop_step[OF ne r] by simp
    have h5: "hits val ident es \<noteq> []" using Cons.prems(5) unfolding hits_Cons_miss[OF False] .
    have h6: "\<forall>q\<in>set (hits val ident es). q = d" using Cons.prems(6) unfolding hits_Cons_miss[OF False] .
    show ?thesis using st Cons.IH[OF tl1 tl2 Cons.prems(3,4) h5 h6] by simp
  qed
qed


text \<open>The four tables of the program are well formed, so the resolver always returns.\<close>

lemma tables_ok:
  "table_ok VehicleCommand_val INVALID_COMMAND_VEHICLE veh_commands"
  "table_ok TownCommand_val INVALID_COMMAND_TOWN town_commands"
  "table_ok IndustryCommand_val INVALID_COMMAND_INDUSTRY ind_commands"
  "table_ok MatchType_val INVALID_MATCH match_info"
  by code_simp+

lemma GetStringInfo_loop_total:
  assumes "xs \<noteq> [] \<longrightarrow> val (id_s (last xs)) \<noteq> LIST_ALIAS"
  shows "\<exists>r. GetStringInfo_loop val ident iv xs cmd u = Inr r"
  using assms
proof (induction xs arbitrary: cmd u)
  case Nil
  then show ?case by simp
next
  case (Cons e es)
  obtain r where r: "skip_alias val (e # es) = Some r"
    using skip_alias_last[of "e # es" val] Cons.prems by blast
  have tl: "es \<noteq> [] \<longrightarrow> val (id_s (last es)) \<noteq> LIST_ALIAS" using Cons.prems by (cases es) auto
  show ?case using r Cons.IH[OF tl] by (simp del: skip_alias.simps)
qed

lemma GetStringInfo_total:
  "table_ok val invalid_value string_array \<Longrightarrow>
     \<exists>r. GetStringInfo val ident invalid_value string_array = Inr r"
  using GetStringInfo_loop_total[of string_array val ident invalid_value invalid_value True]
  by (simp add: GetStringInfo_def table_ok_def)

lemma resolvers_total:
  "\<exists>r. GetVehicleCommand ident = Inr r" "\<exists>r. GetTownCommand ident = Inr r"
  "\<exists>r. GetIndustryCommand ident = Inr r" "\<exists>r. GetMatchType ident = Inr r"
  using GetStringInfo_total[OF tables_ok(1)] GetStringInfo_total[OF tables_ok(2)]
    GetStringInfo_total[OF tables_ok(3)] GetStringInfo_total[OF tables_ok(4)]
  by (simp_all add: GetVehicleCommand_def GetTownCommand_def GetIndustryCommand_def
        GetMatchType_def)

text \<open>
  Claim C9. The query equals no name of the table. If the entries of which the query
  is a prefix (\<open>str_isprefix\<close>: a non-empty, case-insensitive prefix) all denote the
  same real descriptor, that descriptor is returned; if two of them denote different
  real descriptors, the invalid descriptor is returned. The table is well formed.
\<close>

theorem GetStringInfo_prefix_match:
  assumes ok: "table_ok val invalid_value string_array"
    and no_exact: "\<forall>e\<in>set string_array. stricmp ident (name_s e) \<noteq> 0"
  shows "((\<exists>j<length string_array. str_isprefix ident (name_s (string_array ! j)))
          \<and> (\<forall>j<length string_array. str_isprefix ident (name_s (string_array ! j))
                \<longrightarrow> skip_alias val (drop j string_array) = Some d)
          \<longrightarrow> GetStringInfo val ident invalid_value string_array = Inr d)
       \<and> ((\<exists>j<length string_array. \<exists>k<length string_array.
               str_isprefix ident (name_s (string_array ! j))
             \<and> str_isprefix ident (name_s (string_array ! k))
             \<and> skip_alias val (drop j string_array) \<noteq> skip_alias val (drop k string_array))
          \<longrightarrow> GetStringInfo val ident invalid_value string_array = Inr invalid_value)"
proof (intro conjI impI)
  have last_real: "val (id_s (last string_array)) \<noteq> LIST_ALIAS"
    and invalid0: "val (id_s invalid_value) = 0"
    and valid: "\<forall>e\<in>set string_array. val (id_s e) \<noteq> 0"
    and by_id: "\<forall>x\<in>set string_array. \<forall>y\<in>set string_array.
                  val (id_s x) \<noteq> LIST_ALIAS \<and> id_s x = id_s y \<longrightarrow> x = y"
    using ok unfolding table_ok_def by blast+
  have lr: "string_array \<noteq> [] \<longrightarrow> val (id_s (last string_array)) \<noteq> LIST_ALIAS"
    using last_real by simp
  note hi = hits_iff[where xs = string_array and val = val and ident = ident, OF lr]
  {
    assume h: "(\<exists>j<length string_array. str_isprefix ident (name_s (string_array ! j)))
          \<and> (\<forall>j<length string_array. str_isprefix ident (name_s (string_array ! j))
                \<longrightarrow> skip_alias val (drop j string_array) = Some d)"
    then have din: "d \<in> set (hits val ident string_array)" unfolding hi by blast
    then have ne: "hits val ident string_array \<noteq> []" by auto
    have all: "\<forall>q\<in>set (hits val ident string_array). q = d"
    proof
      fix q assume "q \<in> set (hits val ident string_array)"
      then obtain j where "j < length string_array"
        "str_isprefix ident (name_s (string_array ! j))"
        "skip_alias val (drop j string_array) = Some q" unfolding hi by blast
      then show "q = d" using h by auto
    qed
    obtain j where "j < length string_array" "skip_alias val (drop j string_array) = Some d"
      using h by blast
    then have "d \<in> set string_array"
      using skip_alias_Some_real[of val "drop j string_array" d] by (meson in_set_dropD)
    then have dv: "val (id_s d) \<noteq> 0" using valid by blast
    show "GetStringInfo val ident invalid_value string_array = Inr d"
      unfolding GetStringInfo_def
      by (rule loop_same_hits[OF no_exact lr invalid0 dv ne all])
  }
  {
    assume "\<exists>j<length string_array. \<exists>k<length string_array.
               str_isprefix ident (name_s (string_array ! j))
             \<and> str_isprefix ident (name_s (string_array ! k))
             \<and> skip_alias val (drop j string_array) \<noteq> skip_alias val (drop k string_array)"
    then obtain j k where jk: "j < length string_array" "k < length string_array"
      "str_isprefix ident (name_s (string_array ! j))" "str_isprefix ident (name_s (string_array ! k))"
      "skip_alias val (drop j string_array) \<noteq> skip_alias val (drop k string_array)" by blast
    have lj: "val (id_s (last (drop j string_array))) \<noteq> LIST_ALIAS" using jk(1) last_real by simp
    have lk: "val (id_s (last (drop k string_array))) \<noteq> LIST_ALIAS" using jk(2) last_real by simp
    obtain a where a: "skip_alias val (drop j string_array) = Some a"
      using skip_alias_last[of "drop j string_array" val] lj jk(1) by auto
    obtain b where b: "skip_alias val (drop k string_array) = Some b"
      using skip_alias_last[of "drop k string_array" val] lk jk(2) by auto
    have ab: "a \<noteq> b" using jk(5) a b by simp
    have ain: "a \<in> set string_array" "val (id_s a) \<noteq> LIST_ALIAS"
      using skip_alias_Some_real[OF a] by (auto dest: in_set_dropD)
    have bin: "b \<in> set string_array"
      using skip_alias_Some_real[OF b] by (auto dest: in_set_dropD)
    have ids: "id_s a \<noteq> id_s b" using by_id ain bin ab by blast
    have ha: "a \<in> set (hits val ident string_array)" unfolding hi using jk a by blast
    have hb: "b \<in> set (hits val ident string_array)" unfolding hi using jk b by blast
    show "GetStringInfo val ident invalid_value string_array = Inr invalid_value"
      unfolding GetStringInfo_def
      by (rule loop_two_hits[OF no_exact lr invalid0 valid ha hb ids])
  }
qed

theorem GetStringInfo_prefix_match_witness:
  "GetIndustryCommand ''ce'' = Inr (ind_commands ! 1)
   \<and> GetIndustryCommand ''c'' = Inr INVALID_COMMAND_INDUSTRY"
proof -
  note ok = tables_ok(3)
  have e1: "\<forall>e\<in>set ind_commands. stricmp ''ce'' (name_s e) \<noteq> 0" by code_simp
  have e2: "\<forall>e\<in>set ind_commands. stricmp ''c'' (name_s e) \<noteq> 0" by code_simp
  have len: "length ind_commands = 7" by code_simp
  have h1: "\<forall>j\<in>set [0..<7]. str_isprefix ''ce'' (name_s (ind_commands ! j))
              \<longrightarrow> skip_alias IndustryCommand_val (drop j ind_commands) = Some (ind_commands ! 1)"
    by code_simp
  have h0: "str_isprefix ''ce'' (name_s (ind_commands ! 0))" by code_simp
  have p1a: "\<exists>j<length ind_commands. str_isprefix ''ce'' (name_s (ind_commands ! j))"
    unfolding len using h0 by (intro exI[of _ 0]) simp
  have p1b: "\<forall>j<length ind_commands. str_isprefix ''ce'' (name_s (ind_commands ! j))
                \<longrightarrow> skip_alias IndustryCommand_val (drop j ind_commands) = Some (ind_commands ! 1)"
    unfolding len using h1 by simp
  note p1 = conjI[OF p1a p1b]
  have k1: "str_isprefix ''c'' (name_s (ind_commands ! 1))" by code_simp
  have k2: "str_isprefix ''c'' (name_s (ind_commands ! 2))" by code_simp
  have k3: "skip_alias IndustryCommand_val (drop 1 ind_commands)
              \<noteq> skip_alias IndustryCommand_val (drop 2 ind_commands)" by code_simp
  have p2k: "\<exists>k<length ind_commands.
               str_isprefix ''c'' (name_s (ind_commands ! 1))
             \<and> str_isprefix ''c'' (name_s (ind_commands ! k))
             \<and> skip_alias IndustryCommand_val (drop 1 ind_commands)
                 \<noteq> skip_alias IndustryCommand_val (drop k ind_commands)"
    unfolding len using k1 k2 k3 by (intro exI[of _ 2]) simp
  have p2: "\<exists>j<length ind_commands. \<exists>k<length ind_commands.
               str_isprefix ''c'' (name_s (ind_commands ! j))
             \<and> str_isprefix ''c'' (name_s (ind_commands ! k))
             \<and> skip_alias IndustryCommand_val (drop j ind_commands)
                 \<noteq> skip_alias IndustryCommand_val (drop k ind_commands)"
    using p2k len by (intro exI[of _ 1]) simp
  from GetStringInfo_prefix_match[OF ok e1, of "ind_commands ! 1"] p1
  have r1: "GetIndustryCommand ''ce'' = Inr (ind_commands ! 1)"
    unfolding GetIndustryCommand_def by blast
  from GetStringInfo_prefix_match[OF ok e2, of "ind_commands ! 1"] p2
  have r2: "GetIndustryCommand ''c'' = Inr INVALID_COMMAND_INDUSTRY"
    unfolding GetIndustryCommand_def by blast
  show ?thesis using r1 r2 by simp
qed

subsection \<open>Filter chains\<close>

lemma VehicleMatches_switch_next:
  "VehicleMatches_switch env v (MatchInfo t st ident nx) =
   VehicleMatches_switch env v (MatchInfo t st ident None)"
  unfolding VehicleMatches_switch_def MatchInfo.sel by (rule refl)

lemma TownMatches_switch_next:
  "TownMatches_switch env t (MatchInfo ty st ident nx) =
   TownMatches_switch env t (MatchInfo ty st ident None)"
  unfolding TownMatches_switch_def MatchInfo.sel by (rule refl)

lemma IndustryMatches_switch_next:
  "IndustryMatches_switch env i (MatchInfo ty st ident nx) =
   IndustryMatches_switch env i (MatchInfo ty st ident None)"
  unfolding IndustryMatches_switch_def MatchInfo.sel by (rule refl)

lemma VehicleMatches_conj:
  "VehicleMatches env v m = Inr True \<longleftrightarrow> (\<forall>c\<in>set (criteria m). VehicleMatches env v c = Inr True)"
proof (induction env v m rule: VehicleMatches.induct)
  case (1 env v t st ident nx)
  show ?case
  proof (cases nx)
    case None
    then show ?thesis by simp
  next
    case (Some n)
    have ih: "VehicleMatches env v n = Inr True \<longleftrightarrow>
              (\<forall>c\<in>set (criteria n). VehicleMatches env v c = Inr True)"
      using "1.IH" Some by simp
    have sw: "VehicleMatches env v (MatchInfo t st ident None) = VehicleMatches_switch env v (MatchInfo t st ident None)"
      by simp
    have st: "VehicleMatches env v (MatchInfo t st ident (Some n)) = Inr True \<longleftrightarrow>
          VehicleMatches env v n = Inr True \<and> VehicleMatches_switch env v (MatchInfo t st ident None) = Inr True"
      using VehicleMatches_switch_next[of env v t st ident "Some n"]
      by (cases "VehicleMatches env v n") auto
    have cr: "set (criteria (MatchInfo t st ident (Some n))) =
              insert (MatchInfo t st ident None) (set (criteria n))" by simp
    show ?thesis unfolding Some st cr ih by auto
  qed
qed

lemma TownMatches_conj:
  "TownMatches env t m = Inr True \<longleftrightarrow> (\<forall>c\<in>set (criteria m). TownMatches env t c = Inr True)"
proof (induction env t m rule: TownMatches.induct)
  case (1 env t ty st ident nx)
  show ?case
  proof (cases nx)
    case None
    then show ?thesis by simp
  next
    case (Some n)
    have ih: "TownMatches env t n = Inr True \<longleftrightarrow>
              (\<forall>c\<in>set (criteria n). TownMatches env t c = Inr True)"
      using "1.IH" Some by simp
    have sw: "TownMatches env t (MatchInfo ty st ident None) = TownMatches_switch env t (MatchInfo ty st ident None)"
      by simp
    have st: "TownMatches env t (MatchInfo ty st ident (Some n)) = Inr True \<longleftrightarrow>
          TownMatches env t n = Inr True \<and> TownMatches_switch env t (MatchInfo ty st ident None) = Inr True"
      using TownMatches_switch_next[of env t ty st ident "Some n"]
      by (cases "TownMatches env t n") auto
    have cr: "set (criteria (MatchInfo ty st ident (Some n))) =
              insert (MatchInfo ty st ident None) (set (criteria n))" by simp
    show ?thesis unfolding Some st cr ih by auto
  qed
qed

lemma IndustryMatches_conj:
  "IndustryMatches env i m = Inr True \<longleftrightarrow> (\<forall>c\<in>set (criteria m). IndustryMatches env i c = Inr True)"
proof (induction env i m rule: IndustryMatches.induct)
  case (1 env i ty st ident nx)
  show ?case
  proof (cases nx)
    case None
    then show ?thesis by simp
  next
    case (Some n)
    have ih: "IndustryMatches env i n = Inr True \<longleftrightarrow>
              (\<forall>c\<in>set (criteria n). IndustryMatches env i c = Inr True)"
      using "1.IH" Some by simp
    have sw: "IndustryMatches env i (MatchInfo ty st ident None) = IndustryMatches_switch env i (MatchInfo ty st ident None)"
      by simp
    have st: "IndustryMatches env i (MatchInfo ty st ident (Some n)) = Inr True \<longleftrightarrow>
          IndustryMatches env i n = Inr True \<and> IndustryMatches_switch env i (MatchInfo ty st ident None) = Inr True"
      using IndustryMatches_switch_next[of env i ty st ident "Some n"]
      by (cases "IndustryMatches env i n") auto
    have cr: "set (criteria (MatchInfo ty st ident (Some n))) =
              insert (MatchInfo ty st ident None) (set (criteria n))" by simp
    show ?thesis unfolding Some st cr ih by auto
  qed
qed

text \<open>
  Claim C7. An entity matches a chain (the matcher returns true) if and only if it
  matches every criterion of the chain on its own; so two chains with the same criteria,
  in any order, match the same entities. This holds for vehicles, towns and industries.
\<close>

theorem chain_is_conjunction:
  "(VehicleMatches env v m = Inr True
      \<longleftrightarrow> (\<forall>c\<in>set (criteria m). VehicleMatches env v c = Inr True))
   \<and> (TownMatches env t m = Inr True
      \<longleftrightarrow> (\<forall>c\<in>set (criteria m). TownMatches env t c = Inr True))
   \<and> (IndustryMatches env i m = Inr True
      \<longleftrightarrow> (\<forall>c\<in>set (criteria m). IndustryMatches env i c = Inr True))
   \<and> (set (criteria m) = set (criteria m') \<longrightarrow>
        (VehicleMatches env v m = Inr True \<longleftrightarrow> VehicleMatches env v m' = Inr True)
      \<and> (TownMatches env t m = Inr True \<longleftrightarrow> TownMatches env t m' = Inr True)
      \<and> (IndustryMatches env i m = Inr True \<longleftrightarrow> IndustryMatches env i m' = Inr True))"
  using VehicleMatches_conj[of env v m] VehicleMatches_conj[of env v m']
    TownMatches_conj[of env t m] TownMatches_conj[of env t m']
    IndustryMatches_conj[of env i m] IndustryMatches_conj[of env i m']
  by simp

theorem chain_is_conjunction_witness:
  "TownMatches example_env (example_town 3 ''Fort Sunhill'')
     (MatchInfo MATCH_TOWN_POPULATION MATCH_GREATER_OR_EQUAL ''1000''
        (Some (MatchInfo MATCH_GENERIC MATCH_NONE ''fort sunhill'' None))) = Inr True
   \<and> TownMatches example_env (example_town 3 ''Fort Sunhill'')
     (MatchInfo MATCH_GENERIC MATCH_NONE ''fort sunhill''
        (Some (MatchInfo MATCH_TOWN_POPULATION MATCH_GREATER_OR_EQUAL ''1000'' None))) = Inr True
   \<and> TownMatches example_env (example_town 3 ''Fort Sunhill'')
     (MatchInfo MATCH_TOWN_POPULATION MATCH_GREATER ''1000''
        (Some (MatchInfo MATCH_GENERIC MATCH_NONE ''fort sunhill'' None))) \<noteq> Inr True"
proof -
  let ?t = "example_town 3 ''Fort Sunhill''"
  let ?a = "MatchInfo MATCH_TOWN_POPULATION MATCH_GREATER_OR_EQUAL ''1000'' None"
  let ?b = "MatchInfo MATCH_GENERIC MATCH_NONE ''fort sunhill'' None"
  let ?c = "MatchInfo MATCH_TOWN_POPULATION MATCH_GREATER ''1000'' None"
  have a: "TownMatches example_env ?t ?a = Inr True" by code_simp
  have b: "TownMatches example_env ?t ?b = Inr True" by code_simp
  have c: "TownMatches example_env ?t ?c \<noteq> Inr True" by code_simp
  note cc = chain_is_conjunction[of example_env _ _ ?t]
  have 1: "TownMatches example_env ?t (MatchInfo MATCH_TOWN_POPULATION MATCH_GREATER_OR_EQUAL ''1000'' (Some ?b)) = Inr True"
    using cc[of _ "MatchInfo MATCH_TOWN_POPULATION MATCH_GREATER_OR_EQUAL ''1000'' (Some ?b)"] a b by simp
  have 2: "TownMatches example_env ?t (MatchInfo MATCH_GENERIC MATCH_NONE ''fort sunhill'' (Some ?a)) = Inr True"
    using cc[of _ "MatchInfo MATCH_GENERIC MATCH_NONE ''fort sunhill'' (Some ?a)"] a b by simp
  have 3: "TownMatches example_env ?t (MatchInfo MATCH_TOWN_POPULATION MATCH_GREATER ''1000'' (Some ?b)) \<noteq> Inr True"
    using cc[of _ "MatchInfo MATCH_TOWN_POPULATION MATCH_GREATER ''1000'' (Some ?b)"] c by simp
  show ?thesis using 1 2 3 by simp
qed

subsection \<open>The counts of the dispatchers\<close>

lemma DoTownCommand_result:
  "DoTownCommand env t command argv = Inr (r, ev) \<Longrightarrow> r = 1"
  by (cases command) (auto simp: DoTownCommand_def Let_def)

lemma DoIndustryCommand_result:
  "DoIndustryCommand env i command argv = Inr (r, ev) \<Longrightarrow> r = 1"
  by (cases command) (auto simp: DoIndustryCommand_def)

lemma DoVehicleCommand_skip_result:
  "DoVehicleCommand_skip v command n = Inr (r, ev) \<Longrightarrow> r = 0 \<or> r = 1"
  by (auto simp: DoVehicleCommand_skip_def Let_def split: if_splits)

lemma DoVehicleCommand_depot_result:
  "DoVehicleCommand_depot env v command = Inr (r, ev) \<Longrightarrow> r = 0 \<or> r = 1"
  by (auto simp: DoVehicleCommand_depot_def Let_def split: if_splits)

lemma DoVehicleCommand_wsell_result:
  "DoVehicleCommand_wsell env v argv = Inr (r, ev) \<Longrightarrow> r = 0 \<or> r = 1"
  by (auto simp: DoVehicleCommand_wsell_def split: if_splits option.splits sum.splits)

lemma DoVehicleCommand_result:
  "DoVehicleCommand env v command argv = Inr (r, ev) \<Longrightarrow> r = 0 \<or> r = 1"
proof (cases command)
  case VEHICLE_SKIP_ORDER
  then show "DoVehicleCommand env v command argv = Inr (r, ev) \<Longrightarrow> r = 0 \<or> r = 1"
    using DoVehicleCommand_skip_result[of v command _ r ev]
    by (simp add: DoVehicleCommand_def Let_def)
qed (auto simp: DoVehicleCommand_def Let_def
      dest: DoVehicleCommand_skip_result DoVehicleCommand_depot_result DoVehicleCommand_wsell_result
      split: if_splits option.splits VehicleType.splits)

lemma ConTown_loop_le:
  "ConTown_loop env m c argv ts matched affected out = Inr (matched', affected', out')
     \<Longrightarrow> affected \<le> matched \<Longrightarrow> affected' \<le> matched'"
proof (induction ts arbitrary: matched affected out)
  case Nil
  then show ?case by simp
next
  case (Cons t ts)
  show ?case
  proof (cases "TownMatches env t m")
    case (Inl e)
    then show ?thesis using Cons.prems by simp
  next
    case (Inr b)
    show ?thesis
    proof (cases b)
      case False
      then show ?thesis using Inr Cons by simp
    next
      case True
      show ?thesis
      proof (cases "DoTownCommand env t c argv")
        case (Inl e)
        then show ?thesis using True Inr Cons.prems by simp
      next
        case (Inr p)
        obtain r ev where p: "p = (r, ev)" by (cases p)
        have r: "r = 1" using DoTownCommand_result Inr p by blast
        have "ConTown_loop env m c argv ts (matched + 1) (affected + 1) (out @ ev)
                = Inr (matched', affected', out')"
          using Cons.prems(1) True \<open>TownMatches env t m = Inr b\<close> Inr p r by simp
        then show ?thesis using Cons.IH Cons.prems(2) by force
      qed
    qed
  qed
qed

lemma ConIndustry_loop_le:
  "ConIndustry_loop env m c argv is matched affected out = Inr (matched', affected', out')
     \<Longrightarrow> 0 \<le> matched \<Longrightarrow> affected \<le> matched \<Longrightarrow> affected' \<le> matched'"
proof (induction "is" arbitrary: matched affected out)
  case Nil
  then show ?case by simp
next
  case (Cons i "is")
  show ?case
  proof (cases "IndustryMatches env i m")
    case (Inl e)
    then show ?thesis using Cons.prems by simp
  next
    case (Inr b)
    show ?thesis
    proof (cases b)
      case False
      then show ?thesis using Inr Cons by simp
    next
      case True
      show ?thesis
      proof (cases "DoIndustryCommand env i c argv")
        case (Inl e)
        then show ?thesis using True Inr Cons.prems by simp
      next
        case (Inr p)
        obtain r ev where p: "p = (r, ev)" by (cases p)
        have r: "r = 1" using DoIndustryCommand_result Inr p by blast
        have "ConIndustry_loop env m c argv is (matched + 1) 1 (out @ ev)
                = Inr (matched', affected', out')"
          using Cons.prems(1) True \<open>IndustryMatches env i m = Inr b\<close> Inr p r by simp
        then show ?thesis using Cons.IH[of "matched + 1" 1 "out @ ev"] Cons.prems(2) by force
      qed
    qed
  qed
qed

lemma ConVehicleCommand_loop_le:
  "ConVehicleCommand_loop env m cmd argv vs matched affected out = Inr (matched', affected', out')
     \<Longrightarrow> 0 \<le> matched \<Longrightarrow> affected \<le> matched \<Longrightarrow> affected' \<le> matched'"
proof (induction vs arbitrary: matched affected out)
  case Nil
  then show ?case by simp
next
  case (Cons v vs)
  show ?case
  proof (cases "VehicleMatches env v m")
    case (Inl e)
    then show ?thesis using Cons.prems by simp
  next
    case mt: (Inr b)
    show ?thesis
    proof (cases b)
      case False
      then show ?thesis using mt Cons by simp
    next
      case True
      show ?thesis
      proof (cases "ConVehicleCommand_requirements (req_s cmd) v")
        case (Inl e)
        then show ?thesis using True mt Cons.prems by simp
      next
        case rq: (Inr ok)
        show ?thesis
        proof (cases ok)
          case False
          then have "ConVehicleCommand_loop env m cmd argv vs (matched + 1) affected out
                = Inr (matched', affected', out')"
            using Cons.prems(1) True mt rq by simp
          then show ?thesis using Cons.IH[of "matched + 1" affected out] Cons.prems(2,3) by force
        next
          case ok: True
          show ?thesis
          proof (cases "DoVehicleCommand env v (id_s cmd) argv")
            case (Inl e)
            then show ?thesis using True mt rq ok Cons.prems by simp
          next
            case (Inr p)
            obtain r ev where p: "p = (r, ev)" by (cases p)
            have r: "r = 0 \<or> r = 1" using DoVehicleCommand_result Inr p by blast
            have "ConVehicleCommand_loop env m cmd argv vs (matched + 1) r (out @ ev)
                = Inr (matched', affected', out')"
              using Cons.prems(1) True mt rq ok Inr p by simp
            then show ?thesis using Cons.IH[of "matched + 1" r "out @ ev"] Cons.prems(2) r by force
          qed
        qed
      qed
    qed
  qed
qed


lemma ConTown_le:
  assumes "ConTown env argv towns = Inr r" and "report r = Some (matched, affected)"
  shows "affected \<le> matched"
proof -
  from assms obtain m c args out where
    "ConTown_loop env m c args towns 0 0 out = Inr (matched, affected, effects r)"
    by (auto simp: ConTown_def Let_def split: if_splits sum.splits option.splits prod.splits)
  then show ?thesis using ConTown_loop_le by fastforce
qed

lemma ConIndustry_le:
  assumes "ConIndustry env argv industries = Inr r" and "report r = Some (matched, affected)"
  shows "affected \<le> matched"
proof -
  from assms obtain m c args out where
    "ConIndustry_loop env m c args industries 0 0 out = Inr (matched, affected, effects r)"
    by (auto simp: ConIndustry_def Let_def split: if_splits sum.splits option.splits prod.splits)
  then show ?thesis using ConIndustry_loop_le by fastforce
qed

lemma ConVehicleCommand_le:
  assumes "ConVehicleCommand env argv vtype argv0 sort_list = Inr r"
    and "report r = Some (matched, affected)"
  shows "affected \<le> matched"
proof -
  from assms obtain m c args out where
    "ConVehicleCommand_loop env m c args sort_list 0 0 out = Inr (matched, affected, effects r)"
    by (auto simp: ConVehicleCommand_def Let_def
          split: if_splits sum.splits option.splits prod.splits VehicleType.splits)
  then show ?thesis using ConVehicleCommand_loop_le by fastforce
qed

text \<open>
  Claim C6. Whenever a dispatcher (town, industry or vehicle) reaches its final line,
  the affected count it reports is at most the matched count.
\<close>

theorem affected_le_matched:
  "(ConTown env argv towns = Inr r \<and> report r = Some (matched, affected)
      \<longrightarrow> affected \<le> matched)
   \<and> (ConIndustry env argv industries = Inr r \<and> report r = Some (matched, affected)
      \<longrightarrow> affected \<le> matched)
   \<and> (ConVehicleCommand env argv vtype argv0 sort_list = Inr r
        \<and> report r = Some (matched, affected)
      \<longrightarrow> affected \<le> matched)"
  using ConTown_le ConIndustry_le ConVehicleCommand_le by blast

theorem affected_le_matched_witness:
  "ConTown example_env [''town'', ''population>=1000'', ''open'']
      [example_town 0 ''Aville'', (example_town 1 ''Beford'')\<lparr>population := 500\<rparr>]
    = Inr \<lparr>handled = True, effects = [ShowTownViewWindow 0], report = Some (1, 1)\<rparr>
   \<and> (1::int) \<le> 1"
proof -
  have run: "ConTown example_env [''town'', ''population>=1000'', ''open'']
      [example_town 0 ''Aville'', (example_town 1 ''Beford'')\<lparr>population := 500\<rparr>]
    = Inr \<lparr>handled = True, effects = [ShowTownViewWindow 0], report = Some (1, 1)\<rparr>"
    by code_simp
  have "(1::int) \<le> 1"
    using affected_le_matched[of example_env "[''town'', ''population>=1000'', ''open'']"
        "[example_town 0 ''Aville'', (example_town 1 ''Beford'')\<lparr>population := 500\<rparr>]"
        "\<lparr>handled = True, effects = [ShowTownViewWindow 0], report = Some (1, 1)\<rparr>" 1 1] run
    by simp
  then show ?thesis using run by simp
qed

subsection \<open>Evaluating the dispatchers on examples\<close>

lemma count_command:
  "GetVehicleCommand ''count'' =
     Inr \<lparr>id_s = VEHICLE_COUNT, name_s = ''count'', params_s = 0, req_s = 15,
          help_s = ''Count vehicles matching given criteria''\<rparr>"
  by code_simp

lemma open_command:
  "GetVehicleCommand ''open'' =
     Inr \<lparr>id_s = VEHICLE_OPEN, name_s = ''open'', params_s = 0, req_s = 15,
          help_s = ''Open vehicle window''\<rparr>"
  by code_simp

lemma wagons_chain:
  "CheckMatch_argv example_env [''vehicle'', ''wagons=1'', ''count''] FOR_VEHICLE =
     Inr (Some (MatchInfo MATCH_WAGONS MATCH_EQUAL ''1'' None), [''count''], [])"
  by code_simp

lemma all_chain:
  "CheckMatch_argv example_env [''vehicle'', ''all'', ''open''] FOR_VEHICLE =
     Inr (Some (MatchInfo MATCH_ALL MATCH_NONE ''all'' None), [''open''], [])"
  by code_simp

lemma FOR_VEHICLE_15: "FOR_VEHICLE = 15"
  by (simp add: FOR_VEHICLE_def FOR_TRAIN_def FOR_ROAD_def FOR_SHIP_def FOR_AIRCRAFT_def)

lemma example_company: "Company_IsValidID example_env (local_company example_env)"
  by code_simp

text \<open>
  Claim C1. The town dispatcher adds the handler's result to \<open>affected\<close>; the industry
  and vehicle dispatchers assign it (\<^verbatim>\<open>affected = Do...Command(...)\<close>). With two matching
  entities whose command is accepted both times, they report one affected entity.
\<close>

theorem affected_is_last_result:
  "ConIndustry example_env [''industry'', ''all'', ''open'']
      [example_industry 0 (example_town 0 ''Aville''), example_industry 1 (example_town 0 ''Aville'')]
    = Inr \<lparr>handled = True,
           effects = [ShowIndustryViewWindow 0, ShowIndustryViewWindow 1],
           report = Some (2, 1)\<rparr>
   \<and> ConVehicleCommand example_env [''vehicle'', ''all'', ''open''] VEH_INVALID ''vehicle''
      [example_vehicle VEH_ROAD 1 [], example_vehicle VEH_SHIP 2 []]
    = Inr \<lparr>handled = True,
           effects = [ShowVehicleViewWindow 1, ShowVehicleViewWindow 2],
           report = Some (2, 1)\<rparr>"
proof -
  have i: "ConIndustry example_env [''industry'', ''all'', ''open'']
      [example_industry 0 (example_town 0 ''Aville''), example_industry 1 (example_town 0 ''Aville'')]
    = Inr \<lparr>handled = True,
           effects = [ShowIndustryViewWindow 0, ShowIndustryViewWindow 1],
           report = Some (2, 1)\<rparr>"
    by code_simp
  have v: "ConVehicleCommand example_env [''vehicle'', ''all'', ''open''] VEH_INVALID ''vehicle''
      [example_vehicle VEH_ROAD 1 [], example_vehicle VEH_SHIP 2 []]
    = Inr \<lparr>handled = True,
           effects = [ShowVehicleViewWindow 1, ShowVehicleViewWindow 2],
           report = Some (2, 1)\<rparr>"
    by (simp add: ConVehicleCommand_def all_chain[unfolded FOR_VEHICLE_15] open_command
        example_company IS_ALIAS_def FOR_VEHICLE_15 FOR_TRAIN_def FOR_ROAD_def FOR_SHIP_def
        FOR_AIRCRAFT_def
        NOT_CRASHED_def STOPPED_def IN_DEPOT_def ConVehicleCommand_requirements_def
        VehicleMatches_switch_def DoVehicleCommand_def example_vehicle_def)
  show ?thesis using i v by simp
qed

lemma group_chain:
  "CheckMatch_argv (example_env\<lparr>groups := [\<lparr>g_index = 3, g_owner = 0, g_name = ''Coal''\<rparr>]\<rparr>)
     [''train'', ''group'', ''count''] 1 =
     Inr (Some (MatchInfo MATCH_GROUP MATCH_NONE ''group'' None), [''count''], [])"
  by code_simp

lemma example_group:
  "Group_Get (example_env\<lparr>groups := [\<lparr>g_index = 3, g_owner = 0, g_name = ''Coal''\<rparr>]\<rparr>) 3
     = Some \<lparr>g_index = 3, g_owner = 0, g_name = ''Coal''\<rparr>"
  by code_simp

lemma bare_group_key_not_reached:
  "ConVehicleCommand (example_env\<lparr>groups := [\<lparr>g_index = 3, g_owner = 0, g_name = ''Coal''\<rparr>]\<rparr>)
     [''train'', ''group'', ''count''] VEH_TRAIN ''train''
     [(example_vehicle VEH_TRAIN 1 [])\<lparr>group_id := 3\<rparr>] = Inl NotReached"
  by (simp add: ConVehicleCommand_def group_chain count_command example_company
        IS_ALIAS_def FOR_TRAIN_def VehicleMatches_switch_def example_vehicle_def example_group
        StringValueSubMatch_def NumericMatch_def)


lemma wagons_on_road_vehicle_asserts:
  "ConVehicleCommand example_env [''vehicle'', ''wagons=1'', ''count''] VEH_INVALID ''vehicle''
     [example_vehicle VEH_ROAD 1 []] = Inl AssertionFailed"
  by (simp add: ConVehicleCommand_def wagons_chain[unfolded FOR_VEHICLE_15] count_command
        example_company IS_ALIAS_def FOR_VEHICLE_15 FOR_TRAIN_def FOR_ROAD_def FOR_SHIP_def
        FOR_AIRCRAFT_def
        VehicleMatches_switch_def example_vehicle_def)


text \<open>
  Claim C5. The matcher can reach an assertion on a chain that the builder accepted.
  Under the selector \<^verbatim>\<open>train\<close> the bare key \<^verbatim>\<open>group\<close> gives a group criterion with
  the subtype \<open>MATCH_NONE\<close>, and for a train in a group \<^verbatim>\<open>NumericMatch\<close> reaches
  \<^verbatim>\<open>NOT_REACHED()\<close>. The selector \<^verbatim>\<open>vehicle\<close> builds its chain under the mask
  \<open>FOR_VEHICLE\<close>, which admits the train-only key \<^verbatim>\<open>wagons\<close>: on a road vehicle of
  the list the matcher fails \<^verbatim>\<open>assert(v->type == VEH_TRAIN)\<close>.
\<close>

theorem matcher_reaches_assertion:
  "ConVehicleCommand (example_env\<lparr>groups := [\<lparr>g_index = 3, g_owner = 0, g_name = ''Coal''\<rparr>]\<rparr>)
     [''train'', ''group'', ''count''] VEH_TRAIN ''train''
     [(example_vehicle VEH_TRAIN 1 [])\<lparr>group_id := 3\<rparr>] = Inl NotReached
   \<and> ConVehicleCommand example_env [''vehicle'', ''wagons=1'', ''count''] VEH_INVALID ''vehicle''
     [example_vehicle VEH_ROAD 1 []] = Inl AssertionFailed"
  using bare_group_key_not_reached wagons_on_road_vehicle_asserts by simp

subsection \<open>An unknown command\<close>

lemma CheckMatch_Some_out:
  "CheckMatch env a kind_mask = Inr (Some tm, out) \<Longrightarrow> out = []"
  by (auto simp: CheckMatch_def Let_def split: if_splits sum.splits prod.splits)

lemma CheckMatch_argv_loop_out:
  "CheckMatch_argv_loop env kind_mask argv m = Inr (Some m', rest, out) \<Longrightarrow> out = []"
proof (induction env kind_mask argv m arbitrary: m' rest out rule: CheckMatch_argv_loop.induct)
  case (1 env kind_mask m)
  then show ?case by simp
next
  case (2 env kind_mask a argv m)
  show ?case
  proof (cases "CheckMatch env a kind_mask")
    case (Inl e)
    then show ?thesis using "2.prems" by simp
  next
    case (Inr p)
    obtain tmo out1 where p: "p = (tmo, out1)" by (cases p)
    show ?thesis
    proof (cases tmo)
      case None
      then show ?thesis using "2.prems" Inr p by simp
    next
      case (Some tm)
      have o1: "out1 = []" using CheckMatch_Some_out Inr p Some by blast
      let ?m = "MatchInfo (type_m tm) (subtype_m tm) (id_m tm) m"
      show ?thesis
      proof (cases argv)
        case Nil
        then show ?thesis using "2.prems" Inr p Some o1 by simp
      next
        case (Cons b argv')
        show ?thesis
        proof (cases "\<not> (stricmp b ''and'' = 0 \<or> stricmp b ''&'' = 0)")
          case True
          then show ?thesis using "2.prems" Inr p Some o1 Cons by simp
        next
          case False
          then obtain out2 where
            "CheckMatch_argv_loop env kind_mask argv' (Some ?m) = Inr (Some m', rest, out2)"
            "out = out1 @ out2"
            using "2.prems" Inr p Some Cons
            by (auto simp: Let_def split: sum.splits prod.splits)
          moreover have "out2 = []"
            using "2.IH"[OF Inr _ _ _ Cons False] p Some calculation(1) by (simp add: Let_def)
          ultimately show ?thesis using o1 by simp
        qed
      qed
    qed
  qed
qed

lemma CheckMatch_argv_out:
  "CheckMatch_argv env argv kind_mask = Inr (Some m, rest, out) \<Longrightarrow> out = [] \<and> 3 \<le> length argv"
  using CheckMatch_argv_loop_out[of env kind_mask "tl argv" None m rest out]
  by (auto simp: CheckMatch_argv_def split: if_splits)

text \<open>
  Claim C2, as amended. When the filter chain is built and the command token resolves to
  no command, the dispatcher prints an error and returns \<open>handled = false\<close>; it
  iterates no entity and submits no action. The claim says \<open>handled = true\<close>; the
  counterexample is the town dispatcher on \<^verbatim>\<open>town all frobnicate\<close>.
\<close>

theorem invalid_command_not_handled:
  "(CheckMatch_argv env argv FOR_TOWN = Inr (Some m, c # rest, out)
      \<and> GetTownCommand c = Inr tcmd \<and> TownCommand_val (id_s tcmd) = 0
      \<longrightarrow> ConTown env argv towns =
            Inr \<lparr>handled = False,
                 effects = [IConsoleError ''You have specified invalid command.''],
                 report = None\<rparr>)
   \<and> (CheckMatch_argv env argv FOR_INDUSTRY = Inr (Some m, c # rest, out)
      \<and> GetIndustryCommand c = Inr icmd \<and> IndustryCommand_val (id_s icmd) = 0
      \<longrightarrow> ConIndustry env argv industries =
            Inr \<lparr>handled = False,
                 effects = [IConsoleError ''You have specified invalid command.''],
                 report = None\<rparr>)
   \<and> ((vtype, kind_mask) \<in> {(VEH_TRAIN, FOR_TRAIN), (VEH_ROAD, FOR_ROAD), (VEH_SHIP, FOR_SHIP),
                              (VEH_AIRCRAFT, FOR_AIRCRAFT), (VEH_INVALID, FOR_VEHICLE)}
      \<and> Company_IsValidID env (local_company env)
      \<and> CheckMatch_argv env argv kind_mask = Inr (Some m, c # rest, out)
      \<and> GetVehicleCommand c = Inr vcmd \<and> VehicleCommand_val (id_s vcmd) = 0
      \<longrightarrow> ConVehicleCommand env argv vtype argv0 sort_list =
            Inr \<lparr>handled = False,
                 effects = [IConsoleError ''You have specified invalid command.''],
                 report = None\<rparr>)"
proof (intro conjI impI)
  assume a: "CheckMatch_argv env argv FOR_TOWN = Inr (Some m, c # rest, out)
      \<and> GetTownCommand c = Inr tcmd \<and> TownCommand_val (id_s tcmd) = 0"
  then have "out = [] \<and> 3 \<le> length argv" using CheckMatch_argv_out by blast
  then show "ConTown env argv towns =
            Inr \<lparr>handled = False,
                 effects = [IConsoleError ''You have specified invalid command.''],
                 report = None\<rparr>"
    using a by (auto simp: ConTown_def)
next
  assume a: "CheckMatch_argv env argv FOR_INDUSTRY = Inr (Some m, c # rest, out)
      \<and> GetIndustryCommand c = Inr icmd \<and> IndustryCommand_val (id_s icmd) = 0"
  then have "out = [] \<and> 3 \<le> length argv" using CheckMatch_argv_out by blast
  then show "ConIndustry env argv industries =
            Inr \<lparr>handled = False,
                 effects = [IConsoleError ''You have specified invalid command.''],
                 report = None\<rparr>"
    using a by (auto simp: ConIndustry_def)
next
  assume a: "(vtype, kind_mask) \<in> {(VEH_TRAIN, FOR_TRAIN), (VEH_ROAD, FOR_ROAD), (VEH_SHIP, FOR_SHIP),
                              (VEH_AIRCRAFT, FOR_AIRCRAFT), (VEH_INVALID, FOR_VEHICLE)}
      \<and> Company_IsValidID env (local_company env)
      \<and> CheckMatch_argv env argv kind_mask = Inr (Some m, c # rest, out)
      \<and> GetVehicleCommand c = Inr vcmd \<and> VehicleCommand_val (id_s vcmd) = 0"
  then have "out = [] \<and> 3 \<le> length argv" using CheckMatch_argv_out by blast
  then show "ConVehicleCommand env argv vtype argv0 sort_list =
            Inr \<lparr>handled = False,
                 effects = [IConsoleError ''You have specified invalid command.''],
                 report = None\<rparr>"
    using a by (auto simp: ConVehicleCommand_def)
qed

theorem invalid_command_handled_counterexample:
  "ConTown example_env [''town'', ''all'', ''frobnicate''] [example_town 0 ''Aville''] =
     Inr \<lparr>handled = False,
          effects = [IConsoleError ''You have specified invalid command.''],
          report = None\<rparr>
   \<and> CheckMatch_argv example_env [''town'', ''all'', ''frobnicate''] FOR_TOWN =
       Inr (Some (MatchInfo MATCH_ALL MATCH_NONE ''all'' None), [''frobnicate''], [])
   \<and> map_sum id id_s (GetTownCommand ''frobnicate'') = Inr TOWN_INVALID_COMMAND"
  by code_simp

theorem invalid_command_not_handled_witness:
  "ConTown example_env [''town'', ''all'', ''frobnicate''] [example_town 0 ''Aville''] =
     Inr \<lparr>handled = False,
          effects = [IConsoleError ''You have specified invalid command.''],
          report = None\<rparr>"
proof -
  have a: "CheckMatch_argv example_env [''town'', ''all'', ''frobnicate''] FOR_TOWN =
       Inr (Some (MatchInfo MATCH_ALL MATCH_NONE ''all'' None), [''frobnicate''], [])"
    by code_simp
  have b: "GetTownCommand ''frobnicate'' = Inr INVALID_COMMAND_TOWN" by code_simp
  have c: "TownCommand_val (id_s INVALID_COMMAND_TOWN) = 0" by code_simp
  show ?thesis
    using invalid_command_not_handled[of example_env "[''town'', ''all'', ''frobnicate'']"
        "MatchInfo MATCH_ALL MATCH_NONE ''all'' None" "''frobnicate''" "[]" "[]"
        INVALID_COMMAND_TOWN "[example_town 0 ''Aville'']"] a b c
    by simp
qed

subsection \<open>Selling wagons\<close>

lemma TRAIN_SELL_WAGON_loop_count:
  "num_to_sell < length to_be_sold \<Longrightarrow>
     \<exists>sold. TRAIN_SELL_WAGON_loop i min_w max_w tr_v to_be_sold num_to_sell = Inr (sold, num_to_sell)
            \<and> length sold = length to_be_sold"
proof (induction i min_w max_w tr_v to_be_sold num_to_sell rule: TRAIN_SELL_WAGON_loop.induct)
  case (1 i min_w max_w tr_v to_be_sold num_to_sell)
  show ?case
  proof (cases "i \<le> max_w")
    case False
    then show ?thesis by (subst TRAIN_SELL_WAGON_loop.simps) simp
  next
    case le: True
    show ?thesis
    proof (cases "skip_articulated tr_v")
      case Nil
      then show ?thesis using le by (subst TRAIN_SELL_WAGON_loop.simps) simp
    next
      case (Cons p ps)
      show ?thesis
      proof (cases "i \<ge> min_w")
        case True
        let ?sold = "to_be_sold[num_to_sell := p_index p]"
        have lt: "num_to_sell < length ?sold" using "1.prems" by simp
        have "\<exists>sold. TRAIN_SELL_WAGON_loop (i + 1) min_w max_w ps ?sold num_to_sell
                 = Inr (sold, num_to_sell) \<and> length sold = length ?sold"
          using "1.IH"(1)[OF _ Cons True _ refl _ lt] le "1.prems" by simp
        then show ?thesis
          using le Cons True "1.prems" by (subst TRAIN_SELL_WAGON_loop.simps) (simp add: Let_def)
      next
        case False
        have "\<exists>sold. TRAIN_SELL_WAGON_loop (i + 1) min_w max_w ps to_be_sold num_to_sell
                 = Inr (sold, num_to_sell) \<and> length sold = length to_be_sold"
          using "1.IH"(2)[OF _ Cons False "1.prems"] le by simp
        then show ?thesis
          using le Cons False by (subst TRAIN_SELL_WAGON_loop.simps) simp
      qed
    qed
  qed
qed

text \<open>
  Claim C10. For a train and arguments that parse, the second not below the first when
  there is one, the \<^verbatim>\<open>wsell\<close> handler returns 1 and submits no action: the count of
  collected wagons stays zero.
\<close>

theorem wsell_sells_nothing:
  assumes "v_type v = VEH_TRAIN"
    and "argv \<noteq> []"
    and "GetArgumentInteger env (argv ! 0) = Some min_w"
    and "length argv \<ge> 2 \<longrightarrow> GetArgumentInteger env (argv ! 1) = Some max_w \<and> min_w \<le> max_w"
  shows "DoVehicleCommand env v TRAIN_SELL_WAGON argv = Inr (1, [])
       \<and> (\<exists>to_be_sold.
            TRAIN_SELL_WAGON_loop 0 min_w (if length argv \<ge> 2 then max_w else min_w)
              (Train_chain v) (replicate 100 0) 0 = Inr (to_be_sold, 0))"
proof -
  let ?max = "if length argv \<ge> 2 then max_w else min_w"
  obtain sold where sold:
    "TRAIN_SELL_WAGON_loop 0 min_w ?max (Train_chain v) (replicate 100 0) 0 = Inr (sold, 0)"
    using TRAIN_SELL_WAGON_loop_count[of 0 "replicate 100 0" 0 min_w ?max "Train_chain v"]
    by auto
  then have "DoVehicleCommand env v TRAIN_SELL_WAGON argv = Inr (1, [])"
    using assms by (cases "length argv \<ge> 2") (auto simp: DoVehicleCommand_def DoVehicleCommand_wsell_def)
  then show ?thesis using sold by blast
qed


lemma wsell_command:
  "GetVehicleCommand ''wsell'' =
     Inr \<lparr>id_s = TRAIN_SELL_WAGON, name_s = ''wsell'', params_s = 1, req_s = 97,
          help_s = ''Sell train wagons(s). If one parameter is given, single wagon will be sold. If two parameters are given, they will specify range of wagons to sell.''\<rparr>"
  by code_simp

lemma wsell_chain:
  "CheckMatch_argv example_env [''train'', ''all'', ''wsell'', ''1'', ''2''] 1 =
     Inr (Some (MatchInfo MATCH_ALL MATCH_NONE ''all'' None), [''wsell'', ''1'', ''2''], [])"
  by code_simp

text \<open>
  A train of an engine and two wagons: the handler submits nothing for the wagons 1 to
  2, and the dispatcher reports the train as affected.
\<close>

theorem wsell_sells_nothing_witness:
  "DoVehicleCommand example_env
     (example_vehicle VEH_TRAIN 4
        [\<lparr>p_index = 7, p_IsArticulatedPart = False\<rparr>, \<lparr>p_index = 8, p_IsArticulatedPart = False\<rparr>])
     TRAIN_SELL_WAGON [''1'', ''2''] = Inr (1, [])
   \<and> ConTrain example_env [''train'', ''all'', ''wsell'', ''1'', ''2'']
     [example_vehicle VEH_TRAIN 4
        [\<lparr>p_index = 7, p_IsArticulatedPart = False\<rparr>, \<lparr>p_index = 8, p_IsArticulatedPart = False\<rparr>]]
     = Inr \<lparr>handled = True, effects = [], report = Some (1, 1)\<rparr>"
proof -
  let ?v = "example_vehicle VEH_TRAIN 4
        [\<lparr>p_index = 7, p_IsArticulatedPart = False\<rparr>, \<lparr>p_index = 8, p_IsArticulatedPart = False\<rparr>]"
  have a: "GetArgumentInteger example_env ([''1'', ''2''] ! 0) = Some 1" by code_simp
  have b: "GetArgumentInteger example_env ([''1'', ''2''] ! 1) = Some 2" by code_simp
  have c: "(1 :: 32 word) \<le> 2" by simp
  have t: "v_type ?v = VEH_TRAIN" by (simp add: example_vehicle_def)
  have sell: "DoVehicleCommand example_env ?v TRAIN_SELL_WAGON [''1'', ''2''] = Inr (1, [])"
    using wsell_sells_nothing[OF t _ a, of 2] b c by simp
  have m: "VehicleMatches example_env ?v (MatchInfo MATCH_ALL MATCH_NONE ''all'' None) = Inr True"
    by (simp add: VehicleMatches_switch_def)
  have rq: "ConVehicleCommand_requirements 97 ?v = Inr True"
    by (simp add: ConVehicleCommand_requirements_def example_vehicle_def NOT_CRASHED_def
          STOPPED_def IN_DEPOT_def FOR_TRAIN_def)
  have run: "ConTrain example_env [''train'', ''all'', ''wsell'', ''1'', ''2''] [?v]
     = Inr \<lparr>handled = True, effects = [], report = Some (1, 1)\<rparr>"
    by (simp add: ConTrain_def ConVehicleCommand_def wsell_chain wsell_command example_company
          IS_ALIAS_def FOR_TRAIN_def m rq sell del: VehicleMatches.simps)
  show ?thesis using sell run by simp
qed

subsection \<open>A filter token with an unknown key\<close>









subsection \<open>The generic match\<close>

text \<open>
  \<^verbatim>\<open>atoi\<close> on a literal of decimal digits: it returns the number written as long as
  that number fits an \<^verbatim>\<open>int\<close>; beyond that it does not.
\<close>

lemma atoi_examples:
  "atoi ''2147483647'' = 2147483647" "atoi ''2147483648'' = - 2147483648"
  "atoi ''4294967296'' = 0" "atoi ''99999999999999999999'' = - 1"
  "atoi '' -12x'' = - 12" "atoi ''zzz'' = 0"
  by code_simp+

lemma generic_literal_out_of_range:
  "TownMatches example_env (example_town 0 ''Aville'')
     (MatchInfo MATCH_GENERIC MATCH_NONE ''4294967296'' None) = Inr True"
  by code_simp

lemma digit_value:
  "isdigit c \<Longrightarrow> 0 \<le> (of_char c :: int) - 48 \<and> (of_char c :: int) - 48 \<le> 9"
  using of_nat_of_char[of c, where 'a = int] unfolding isdigit_def Let_def by linarith

lemma digit_not_space: "isdigit c \<Longrightarrow> \<not> isspace c \<and> c \<noteq> CHR ''-'' \<and> c \<noteq> CHR ''+''"
  unfolding isdigit_def isspace_def Let_def by auto

lemma atoi_digits_sum:
  "\<forall>c\<in>set lit. isdigit c \<Longrightarrow>
     atoi_digits acc lit =
       acc * 10 ^ length lit
       + (\<Sum>i<length lit. (of_char (lit ! i) - 48) * 10 ^ (length lit - Suc i))"
proof (induction lit arbitrary: acc)
  case Nil
  then show ?case by simp
next
  case (Cons c cs)
  have "atoi_digits acc (c # cs) = atoi_digits (acc * 10 + (of_char c - 48)) cs"
    using Cons.prems by simp
  also have "\<dots> = (acc * 10 + (of_char c - 48)) * 10 ^ length cs
      + (\<Sum>i<length cs. (of_char (cs ! i) - 48) * 10 ^ (length cs - Suc i))"
    using Cons.IH Cons.prems by simp
  also have "\<dots> = acc * 10 ^ length (c # cs)
      + (\<Sum>i<length (c # cs). (of_char ((c # cs) ! i) - 48) * 10 ^ (length (c # cs) - Suc i))"
    unfolding list.size(4) add_Suc_right add_0_right sum.lessThan_Suc_shift
    by (simp add: algebra_simps)
  finally show ?case .
qed

lemma atoi_digits_nonneg:
  "\<forall>c\<in>set lit. isdigit c \<Longrightarrow> 0 \<le> acc \<Longrightarrow> 0 \<le> atoi_digits acc lit"
proof (induction lit arbitrary: acc)
  case Nil
  then show ?case by simp
next
  case (Cons c cs)
  have "0 \<le> acc * 10 + (of_char c - 48)" using digit_value[of c] Cons.prems by simp
  then show ?case using Cons by simp
qed

lemma atoi_decimal:
  assumes "lit \<noteq> []" "\<forall>c\<in>set lit. isdigit c"
    and "n = (\<Sum>i<length lit. (of_char (lit ! i) - 48) * 10 ^ (length lit - Suc i))"
    and "n \<le> 2147483647"
  shows "atoi lit = n"
proof -
  obtain c cs where l: "lit = c # cs" using assms(1) by (cases lit) auto
  have d: "isdigit c" using assms(2) l by simp
  have v: "atoi_digits 0 lit = n" using atoi_digits_sum[OF assms(2), of 0] assms(3) by simp
  have n0: "0 \<le> n" using atoi_digits_nonneg[OF assms(2), of 0] v by simp
  have "strtol lit = n"
    using digit_not_space[OF d] v n0 assms(4) unfolding strtol_def l by (simp add: Let_def)
  then show ?thesis using n0 assms(4) by (simp add: atoi_def long_to_int_def Let_def)
qed

text \<open>
  Claim C4, as amended. For a generic criterion on its own: a town matches when its name
  equals the literal without regard to case; for a literal made of decimal digits that
  writes a number \<open>n\<close> of at most 2147483647 (the digit at position \<open>i\<close> counts
  \<open>10 ^ (length lit - Suc i)\<close>), it matches exactly when the name equals the literal
  or the town's index is \<open>n\<close>; an industry likewise, with the name of its town and its
  own index; a vehicle matches exactly when the argument parser reads the literal as the
  vehicle's unit number, its name is not compared, and a literal that does not parse
  gives false. The counterexample: a vehicle whose name is the literal does not match,
  and the town with index 0 matches the literal \<^verbatim>\<open>zzz\<close>, since \<^verbatim>\<open>atoi\<close> returns 0 for it.
\<close>

theorem generic_match:
  "(stricmp (TownName t) lit = 0 \<longrightarrow>
      TownMatches env t (MatchInfo MATCH_GENERIC st lit None) = Inr True)
   \<and> (town i = Some i_town \<and> stricmp (TownName i_town) lit = 0 \<longrightarrow>
      IndustryMatches env i (MatchInfo MATCH_GENERIC st lit None) = Inr True)
   \<and> (lit \<noteq> [] \<and> (\<forall>c\<in>set lit. isdigit c)
        \<and> n = (\<Sum>k<length lit. (of_char (lit ! k) - 48) * 10 ^ (length lit - Suc k))
        \<and> n \<le> 2147483647 \<longrightarrow>
      TownMatches env t (MatchInfo MATCH_GENERIC st lit None) =
        Inr (stricmp (TownName t) lit = 0 \<or> int (t_index t) = n)
      \<and> (town i = Some i_town \<longrightarrow>
           IndustryMatches env i (MatchInfo MATCH_GENERIC st lit None) =
             Inr (stricmp (TownName i_town) lit = 0 \<or> int (i_index i) = n)))
   \<and> VehicleMatches env v (MatchInfo MATCH_GENERIC st lit None) =
        Inr (GetArgumentInteger env lit = Some (to_uint32 (unitnumber v)))"
proof (intro conjI impI)
  show "TownMatches env t (MatchInfo MATCH_GENERIC st lit None) = Inr True"
    if "stricmp (TownName t) lit = 0"
    using that by (simp add: TownMatches_switch_def)
  show "IndustryMatches env i (MatchInfo MATCH_GENERIC st lit None) = Inr True"
    if "town i = Some i_town \<and> stricmp (TownName i_town) lit = 0"
    using that by (simp add: IndustryMatches_switch_def)
  show "VehicleMatches env v (MatchInfo MATCH_GENERIC st lit None) =
        Inr (GetArgumentInteger env lit = Some (to_uint32 (unitnumber v)))"
    by (auto simp: VehicleMatches_switch_def NumericValueSubMatch_def NumericMatch_def
          split: option.splits)
next
  assume h: "lit \<noteq> [] \<and> (\<forall>c\<in>set lit. isdigit c)
        \<and> n = (\<Sum>k<length lit. (of_char (lit ! k) - 48) * 10 ^ (length lit - Suc k))
        \<and> n \<le> 2147483647"
  then have a: "atoi lit = n" using atoi_decimal[of lit n] by blast
  show "TownMatches env t (MatchInfo MATCH_GENERIC st lit None) =
        Inr (stricmp (TownName t) lit = 0 \<or> int (t_index t) = n)"
    using a by (simp add: TownMatches_switch_def)
  show "IndustryMatches env i (MatchInfo MATCH_GENERIC st lit None) =
          Inr (stricmp (TownName i_town) lit = 0 \<or> int (i_index i) = n)"
    if "town i = Some i_town"
    using a that by (simp add: IndustryMatches_switch_def)
qed

theorem generic_match_counterexample:
  "VehicleMatches example_env ((example_vehicle VEH_ROAD 7 [])\<lparr>v_name := ''express''\<rparr>)
      (MatchInfo MATCH_GENERIC MATCH_NONE ''express'' None) = Inr False
   \<and> stricmp (v_name ((example_vehicle VEH_ROAD 7 [])\<lparr>v_name := ''express''\<rparr>)) ''express'' = 0
   \<and> TownMatches example_env (example_town 0 ''Aville'')
      (MatchInfo MATCH_GENERIC MATCH_NONE ''zzz'' None) = Inr True
   \<and> stricmp (TownName (example_town 0 ''Aville'')) ''zzz'' \<noteq> 0
   \<and> GetArgumentInteger example_env ''zzz'' = None"
proof -
  have p: "GetArgumentInteger example_env ''express'' = None" by code_simp
  have v: "VehicleMatches example_env ((example_vehicle VEH_ROAD 7 [])\<lparr>v_name := ''express''\<rparr>)
      (MatchInfo MATCH_GENERIC MATCH_NONE ''express'' None) = Inr False"
    by (simp add: VehicleMatches_switch_def NumericValueSubMatch_def p)
  have n: "stricmp (v_name ((example_vehicle VEH_ROAD 7 [])\<lparr>v_name := ''express''\<rparr>)) ''express'' = 0"
    by (simp add: stricmp_def)
  have t: "TownMatches example_env (example_town 0 ''Aville'')
      (MatchInfo MATCH_GENERIC MATCH_NONE ''zzz'' None) = Inr True" by code_simp
  have s: "stricmp (TownName (example_town 0 ''Aville'')) ''zzz'' \<noteq> 0" by code_simp
  have z: "GetArgumentInteger example_env ''zzz'' = None" by code_simp
  show ?thesis using v n t s z by simp
qed

theorem generic_match_witness:
  "IndustryMatches example_env (example_industry 12 (example_town 2 ''Aville''))
      (MatchInfo MATCH_GENERIC MATCH_NONE ''12'' None) = Inr True
   \<and> TownMatches example_env (example_town 2 ''Aville'')
      (MatchInfo MATCH_GENERIC MATCH_NONE ''AVILLE'' None) = Inr True
   \<and> TownMatches example_env (example_town 2 ''Aville'')
      (MatchInfo MATCH_GENERIC MATCH_NONE ''30'' None) = Inr False"
proof -
  let ?t = "example_town 2 ''Aville''" and ?i = "example_industry 12 (example_town 2 ''Aville'')"
  have it: "town ?i = Some ?t" by (simp add: example_industry_def)
  have d12: "''12'' \<noteq> [] \<and> (\<forall>c\<in>set ''12''. isdigit c)" by code_simp
  have d30: "''30'' \<noteq> [] \<and> (\<forall>c\<in>set ''30''. isdigit c)" by code_simp
  have v12: "(12::int) = (\<Sum>k<length ''12''. (of_char (''12'' ! k) - 48) * 10 ^ (length ''12'' - Suc k))"
    by (simp add: lessThan_Suc)
  have v30: "(30::int) = (\<Sum>k<length ''30''. (of_char (''30'' ! k) - 48) * 10 ^ (length ''30'' - Suc k))"
    by (simp add: lessThan_Suc)
  have b12: "(12::int) \<le> 2147483647" and b30: "(30::int) \<le> 2147483647" by simp_all
  have i12: "int (i_index ?i) = 12" by (simp add: example_industry_def)
  have nm: "stricmp (TownName ?t) ''AVILLE'' = 0" by code_simp
  have n30: "stricmp (TownName ?t) ''30'' \<noteq> 0" by code_simp
  have t30: "int (t_index ?t) \<noteq> 30" by (simp add: example_town_def)
  have "IndustryMatches example_env ?i (MatchInfo MATCH_GENERIC MATCH_NONE ''12'' None)
          = Inr (stricmp (TownName ?t) ''12'' = 0 \<or> int (i_index ?i) = 12)"
    using generic_match[where lit = "''12''" and n = 12 and i = ?i and i_town = ?t
        and env = example_env and st = MATCH_NONE] it d12 v12 b12 by blast
  then have 1: "IndustryMatches example_env ?i (MatchInfo MATCH_GENERIC MATCH_NONE ''12'' None) = Inr True"
    by (simp only: i12 simp_thms)
  have 2: "TownMatches example_env ?t (MatchInfo MATCH_GENERIC MATCH_NONE ''AVILLE'' None) = Inr True"
    using generic_match[where t = ?t and lit = "''AVILLE''" and env = example_env
        and st = MATCH_NONE] nm by blast
  have "TownMatches example_env ?t (MatchInfo MATCH_GENERIC MATCH_NONE ''30'' None)
          = Inr (stricmp (TownName ?t) ''30'' = 0 \<or> int (t_index ?t) = 30)"
    using generic_match[where t = ?t and lit = "''30''" and n = 30 and env = example_env
        and st = MATCH_NONE] d30 v30 b30 by blast
  then have 3: "TownMatches example_env ?t (MatchInfo MATCH_GENERIC MATCH_NONE ''30'' None) = Inr False"
    using n30 t30 by (simp only: simp_thms)
  show ?thesis using 1 2 3 by blast
qed

end
